theory Spec2Isabelle
  imports Complex_Main
begin

section \<open>The VEO video generation agent (veo\_video\_gen\_google\_adk/agent.py)\<close>

text \<open>
  The development embeds \<^verbatim>\<open>VideoGenerationAgent.stream\<close> and the two helpers it calls,
  \<^verbatim>\<open>_upload_bytes_to_gcs\<close> and \<^verbatim>\<open>_generate_signed_url\<close>. The asynchronous generator
  becomes a function from the agent's configuration and the behaviour of the outside world
  (what the VEO backend, the clock, the local disk and the storage client answer) to the
  trace of what the generator does: the dictionaries it yields and the external calls it
  makes, in order. An exception is a value; a polling loop that never sees
  \<^verbatim>\<open>done\<close> does not return, which is the value \<open>None\<close>.
\<close>

subsection \<open>Python values\<close>

text \<open>An attribute of a Python object: \<^verbatim>\<open>hasattr\<close> is false for \<open>Missing\<close>.\<close>

datatype 'a attr = Missing | Has 'a

text \<open>An exception (a subclass of \<^verbatim>\<open>Exception\<close>): its class and \<^verbatim>\<open>str(e)\<close>.\<close>

datatype py_exn = PyExn (exn_type: string) (exn_str: string)

type_synonym bytes = string

text \<open>\<^verbatim>\<open>generated_video_info.video\<close>: \<^verbatim>\<open>video_bytes\<close> and \<^verbatim>\<open>mime_type\<close>, each possibly None.\<close>

record veo_video =
  video_bytes :: "bytes option"
  mime_type :: "string option"

record generated_video_info =
  video :: "veo_video option"

text \<open>
  \<^verbatim>\<open>veo_operation.response\<close>. The source tests \<^verbatim>\<open>rai_media_filtered_count\<close> with
  \<^verbatim>\<open>hasattr\<close> and reads \<^verbatim>\<open>rai_media_filtered_reasons\<close> with a \<^verbatim>\<open>getattr\<close> default, so both
  may be missing; an attribute that is present may hold \<^verbatim>\<open>None\<close>, an integer for the
  count, a list of strings for the reasons.
\<close>

record veo_response =
  generated_videos :: "generated_video_info list option"
  rai_media_filtered_count :: "int option attr"
  rai_media_filtered_reasons :: "string list option attr"

text \<open>\<^verbatim>\<open>veo_operation.error\<close>: an optional \<^verbatim>\<open>message\<close> attribute and its \<^verbatim>\<open>str()\<close>.\<close>

record veo_error =
  message :: "string attr"
  error_str :: string

text \<open>
  What \<^verbatim>\<open>generate_videos\<close> and \<^verbatim>\<open>operations.get\<close> return: any Python object. Every
  attribute the source reads may be missing; \<open>obj_str\<close> is \<^verbatim>\<open>str(obj)\<close> and \<open>obj_type\<close> is
  \<^verbatim>\<open>str(type(obj))\<close>. A value of \<^verbatim>\<open>None\<close> for \<^verbatim>\<open>name\<close>, \<^verbatim>\<open>error\<close> or \<^verbatim>\<open>response\<close> is \<open>Has None\<close>.
\<close>

record py_object =
  op_done :: "bool attr"
  op_name :: "string option attr"
  op_error :: "veo_error option attr"
  op_response :: "veo_response option attr"
  obj_str :: string
  obj_type :: string

subsection \<open>The yielded dictionaries\<close>

record file_part =
  uri :: string
  mimeType :: string

text \<open>A key the dictionary does not hold is \<open>None\<close>.\<close>

record event =
  is_task_complete :: bool
  updates :: "string option"
  progress_percent :: int
  content :: "string option"
  is_error :: "bool option"
  final_message_text :: "string option"
  file_part_data :: "file_part option"
  artifact_name :: "string option"
  artifact_description :: "string option"

text \<open>The external calls, and the trace of a run.\<close>

datatype call =
    GenerateVideos string
  | Sleep int
  | OperationsGet nat
  | UploadBytesToGcs bytes string string string
  | GenerateSignedUrl string string int

datatype action = Yield event | Call call

subsection \<open>The agent and the world\<close>

text \<open>
  The class constants and the fields of \<^verbatim>\<open>self\<close> that \<^verbatim>\<open>stream\<close> reads. \<open>storage_client\<close>
  is the truth value of \<^verbatim>\<open>self.storage_client\<close>.
\<close>

record agent =
  VEO_POLLING_INTERVAL_SECONDS :: int
  VEO_SIMULATED_TOTAL_GENERATION_TIME_SECONDS :: int
  SIGNED_URL_EXPIRATION_SECONDS :: int
  gcs_bucket_name :: string
  storage_client :: bool

text \<open>
  The answers of the outside world during one run: \<open>operations_get n\<close> is the outcome of
  the \<open>n\<close>-th poll (from 0), \<open>monotonic n\<close> the \<open>n\<close>-th reading of \<^verbatim>\<open>time.monotonic()\<close>
  (reading 0 is \<^verbatim>\<open>start_time\<close>), \<open>uuid4\<close> is \<^verbatim>\<open>str(uuid.uuid4())\<close>, and \<open>files\<close> the
  paths that exist on the local disk when the run starts. An exception of \<^verbatim>\<open>open\<close>,
  \<^verbatim>\<open>f.write\<close>, \<^verbatim>\<open>blob.upload_from_filename\<close> is \<open>Some e\<close>.
\<close>

record world =
  generate_videos :: "py_exn + py_object"
  operations_get :: "nat \<Rightarrow> py_exn + py_object"
  monotonic :: "nat \<Rightarrow> real"
  uuid4 :: string
  gettempdir :: string
  files :: "string set"
  open_wb :: "py_exn option"
  f_write :: "py_exn option"
  blob_upload_from_filename :: "py_exn option"
  blob_generate_signed_url :: "py_exn + string"

subsection \<open>String operations of Python\<close>

text \<open>\<^verbatim>\<open>s.split('/')[-1]\<close>: what follows the last \<^verbatim>\<open>/\<close>, all of \<open>s\<close> when it has none.\<close>

definition split_last :: "string \<Rightarrow> string" where
  "split_last s = rev (takeWhile (\<lambda>c. c \<noteq> CHR ''/'') (rev s))"

text \<open>\<^verbatim>\<open>s.replace(old, new)\<close>: every occurrence, scanning from the left without overlap.\<close>

function replace_scan :: "string \<Rightarrow> string \<Rightarrow> string \<Rightarrow> string" where
  "replace_scan old new s =
     (if s = [] \<or> old = [] then s
      else if take (length old) s = old
        then new @ replace_scan old new (drop (length old) s)
      else hd s # replace_scan old new (tl s))"
  by pat_completeness auto
termination
  by (relation "measure (\<lambda>(old, new, s). length s)") auto

definition str_replace :: "string \<Rightarrow> string \<Rightarrow> string \<Rightarrow> string" where
  "str_replace s old new =
     (if old = [] then new @ concat (map (\<lambda>c. c # new) s) else replace_scan old new s)"

text \<open>\<^verbatim>\<open>sep.join(xs)\<close>.\<close>

fun join :: "string \<Rightarrow> string list \<Rightarrow> string" where
  "join sep [] = []"
| "join sep [x] = x"
| "join sep (x # y # ys) = x @ sep @ join sep (y # ys)"

text \<open>\<^verbatim>\<open>str(n)\<close> of an integer.\<close>

fun str_nat :: "nat \<Rightarrow> string" where
  "str_nat n =
     (if n < 10 then [char_of (n + 48)] else str_nat (n div 10) @ [char_of (n mod 10 + 48)])"

declare str_nat.simps [simp del] replace_scan.simps [simp del]

definition str_int :: "int \<Rightarrow> string" where
  "str_int i = (if i < 0 then CHR ''-'' # str_nat (nat (- i)) else str_nat (nat i))"

text \<open>\<^verbatim>\<open>int(x)\<close> of a float: truncation towards zero.\<close>

definition py_int :: "real \<Rightarrow> int" where
  "py_int x = (if 0 \<le> x then \<lfloor>x\<rfloor> else \<lceil>x\<rceil>)"

subsection \<open>\<^verbatim>\<open>_upload_bytes_to_gcs\<close> and \<^verbatim>\<open>_generate_signed_url\<close>\<close>

text \<open>\<^verbatim>\<open>os.path.join(tempfile.gettempdir(), blob_name.split('/')[-1])\<close>; the last part has no
  \<^verbatim>\<open>/\<close>, so the join never discards the directory.\<close>

definition temp_file_path :: "world \<Rightarrow> string \<Rightarrow> string" where
  "temp_file_path W blob_name =
     (if gettempdir W = [] \<or> last (gettempdir W) = CHR ''/''
      then gettempdir W @ split_last blob_name
      else gettempdir W @ ''/'' @ split_last blob_name)"

text \<open>
  The body of the \<^verbatim>\<open>try\<close>: \<^verbatim>\<open>open(.., 'wb')\<close> creates the file, then the bytes are written,
  then the file is uploaded. The result is the exception raised, if any, and the files on
  disk when the block is left.
\<close>

definition upload_try :: "world \<Rightarrow> string \<Rightarrow> string set \<Rightarrow> py_exn option \<times> string set" where
  "upload_try W path fs =
     (case open_wb W of
        Some e \<Rightarrow> (Some e, fs)
      | None \<Rightarrow>
          (case f_write W of
             Some e \<Rightarrow> (Some e, insert path fs)
           | None \<Rightarrow> (blob_upload_from_filename W, insert path fs)))"

text \<open>
  The whole method: the \<^verbatim>\<open>RuntimeError\<close> without a storage client, the \<^verbatim>\<open>try\<close>, and the
  \<^verbatim>\<open>finally\<close> (\<^verbatim>\<open>os.path.exists\<close>, \<^verbatim>\<open>os.remove\<close>) that runs however the \<^verbatim>\<open>try\<close> is left.
\<close>

definition upload_bytes_to_gcs ::
  "agent \<Rightarrow> world \<Rightarrow> string set \<Rightarrow> bytes \<Rightarrow> string \<Rightarrow> string \<Rightarrow> string
     \<Rightarrow> (py_exn + string) \<times> string set" where
  "upload_bytes_to_gcs A W fs vbytes bucket_name blob_name content_type =
     (if \<not> storage_client A
      then (Inl (PyExn ''RuntimeError''
                  ''Google Cloud Storage client not initialized. Cannot upload video.''), fs)
      else
        (let path = temp_file_path W blob_name;
             r = upload_try W path fs;
             fs' = (if path \<in> snd r then snd r - {path} else snd r)
         in case fst r of
              Some e \<Rightarrow> (Inl e, fs')
            | None \<Rightarrow> (Inr (''gs://'' @ bucket_name @ ''/'' @ blob_name), fs')))"

definition generate_signed_url :: "world \<Rightarrow> string \<Rightarrow> string \<Rightarrow> int \<Rightarrow> string" where
  "generate_signed_url W blob_name bucket_name expiration_seconds =
     (case blob_generate_signed_url W of
        Inr signed_url \<Rightarrow> signed_url
      | Inl e \<Rightarrow> ''gs://'' @ bucket_name @ ''/'' @ blob_name)"

subsection \<open>The dictionaries \<^verbatim>\<open>stream\<close> yields\<close>

definition squote :: string where
  "squote = [CHR 0x27]"

text \<open>A progress update: the keys \<^verbatim>\<open>is_task_complete\<close> (False), \<^verbatim>\<open>updates\<close>, \<^verbatim>\<open>progress_percent\<close>.\<close>

definition progress_update :: "string \<Rightarrow> int \<Rightarrow> event" where
  "progress_update msg pct =
     \<lparr>is_task_complete = False, updates = Some msg, progress_percent = pct, content = None,
      is_error = None, final_message_text = None, file_part_data = None,
      artifact_name = None, artifact_description = None\<rparr>"

text \<open>A failure: \<^verbatim>\<open>is_task_complete\<close>, \<^verbatim>\<open>content\<close>, \<^verbatim>\<open>is_error\<close> (True),
  \<^verbatim>\<open>final_message_text\<close>, \<^verbatim>\<open>progress_percent\<close> (100).\<close>

definition error_result :: "string \<Rightarrow> string \<Rightarrow> event" where
  "error_result c final =
     \<lparr>is_task_complete = True, updates = None, progress_percent = 100, content = Some c,
      is_error = Some True, final_message_text = Some final, file_part_data = None,
      artifact_name = None, artifact_description = None\<rparr>"

text \<open>The dictionary of line 230, yielded when a poll answers with an unexpected value: it
  has the keys \<^verbatim>\<open>is_task_complete\<close>, \<^verbatim>\<open>content\<close>, \<^verbatim>\<open>final_message_text\<close> and
  \<^verbatim>\<open>progress_percent\<close>, and no others.\<close>

definition polling_issue :: "string \<Rightarrow> event" where
  "polling_issue error_msg =
     \<lparr>is_task_complete = True, updates = None, progress_percent = 100,
      content = Some error_msg, is_error = None,
      final_message_text = Some ''Video generation polling encountered an API issue.'',
      file_part_data = None, artifact_name = None, artifact_description = None\<rparr>"

text \<open>The final success (lines 313 to 323).\<close>

definition success_result :: "string \<Rightarrow> string \<Rightarrow> string \<Rightarrow> string \<Rightarrow> string \<Rightarrow> event" where
  "success_result signed_gcs_url mime nm descr completion_message =
     \<lparr>is_task_complete = True, updates = None, progress_percent = 100, content = None,
      is_error = None, final_message_text = Some completion_message,
      file_part_data = Some \<lparr>uri = signed_gcs_url, mimeType = mime\<rparr>,
      artifact_name = Some nm, artifact_description = Some descr\<rparr>"

text \<open>The handler of line 357: \<open>ctx\<close> is \<^verbatim>\<open>error_context_msg\<close>.\<close>

definition exception_result :: "string \<Rightarrow> py_exn \<Rightarrow> string \<Rightarrow> event" where
  "exception_result session_id e ctx =
     error_result
       (''An error occurred during video generation stream for session_id '' @ session_id
          @ '': '' @ exn_str e @ ''. Context: '' @ ctx)
       (''An unexpected error occurred: '' @ exn_str e)"

text \<open>Reading an attribute the object does not have.\<close>

definition attribute_error :: "string \<Rightarrow> string \<Rightarrow> py_exn" where
  "attribute_error ty a =
     PyExn ''AttributeError'' (ty @ '' object has no attribute '' @ squote @ a @ squote)"

subsection \<open>The progress estimate (lines 233 to 235)\<close>

definition current_progress :: "agent \<Rightarrow> real \<Rightarrow> py_exn + int" where
  "current_progress A elapsed_time =
     (if VEO_SIMULATED_TOTAL_GENERATION_TIME_SECONDS A = 0
      then Inl (PyExn ''ZeroDivisionError'' ''float division by zero'')
      else
        (let simulated_progress =
               min (py_int ((elapsed_time
                      / real_of_int (VEO_SIMULATED_TOTAL_GENERATION_TIME_SECONDS A)) * 100)) 99
         in Inr (max 5 simulated_progress)))"

subsection \<open>The polling loop (lines 206 to 240)\<close>

text \<open>How the loop is left: by \<^verbatim>\<open>break\<close> with the operation that is done, by the
  \<^verbatim>\<open>return\<close> of line 231, or by an exception. The string is
  \<^verbatim>\<open>veo_operation_name_for_reporting\<close> at that moment.\<close>

datatype loop_exit = Break py_object string | Return | Raise py_exn string

definition not_valid_msg :: "string \<Rightarrow> py_object \<Rightarrow> string" where
  "not_valid_msg session_id veo_operation =
     ''['' @ session_id @ ''] VEO operation variable is not a valid operation object before ''
       @ squote @ ''done'' @ squote @ '' check. Type: '' @ obj_type veo_operation
       @ '', Value: '' @ take 200 (obj_str veo_operation)"

definition unexpected_msg :: "string \<Rightarrow> string \<Rightarrow> py_object \<Rightarrow> string" where
  "unexpected_msg session_id reporting polled_data =
     ''['' @ session_id @ ''] VEO polling for '' @ squote @ reporting @ squote
       @ '' returned unexpected data type: '' @ obj_type polled_data
       @ ''. Value: '' @ take 200 (obj_str polled_data)"

definition in_progress_msg :: "string \<Rightarrow> int \<Rightarrow> string" where
  "in_progress_msg reporting p =
     ''Video generation in progress (Operation: '' @ reporting
       @ ''). Simulated progress: '' @ str_int p @ ''%''"

text \<open>Lines 224 and 225: the name replaces the one reported when it is not empty.\<close>

definition polled_name :: "py_object \<Rightarrow> string \<Rightarrow> string" where
  "polled_name polled_data reporting =
     (case op_name polled_data of
        Has (Some nm) \<Rightarrow> if nm \<noteq> [] then nm else reporting
      | _ \<Rightarrow> reporting)"

text \<open>
  One call is one test of the loop's condition with the operation at hand. \<open>n\<close> counts the
  polls made so far. A value of \<^verbatim>\<open>done\<close> that is not true lets the loop sleep and poll.
\<close>

partial_function (option) polling_loop ::
  "agent \<Rightarrow> world \<Rightarrow> string \<Rightarrow> nat \<Rightarrow> py_object \<Rightarrow> string \<Rightarrow> (action list \<times> loop_exit) option"
where
  "polling_loop A W session_id n veo_operation reporting =
     (case op_done veo_operation of
        Missing \<Rightarrow>
          Some ([], Raise (PyExn ''TypeError'' (not_valid_msg session_id veo_operation)) reporting)
      | Has d \<Rightarrow>
          if d then Some ([], Break veo_operation reporting)
          else
            (case operations_get W n of
               Inl e \<Rightarrow>
                 Some ([Call (Sleep (VEO_POLLING_INTERVAL_SECONDS A)), Call (OperationsGet n)],
                       Raise e reporting)
             | Inr polled_data \<Rightarrow>
                 if op_done polled_data \<noteq> Missing \<and> op_name polled_data \<noteq> Missing
                 then
                   (case current_progress A (monotonic W (Suc n) - monotonic W 0) of
                      Inl e \<Rightarrow>
                        Some ([Call (Sleep (VEO_POLLING_INTERVAL_SECONDS A)),
                               Call (OperationsGet n)],
                              Raise e (polled_name polled_data reporting))
                    | Inr p \<Rightarrow>
                        Option.bind
                          (polling_loop A W session_id (Suc n) polled_data
                             (polled_name polled_data reporting))
                          (\<lambda>r. Some ([Call (Sleep (VEO_POLLING_INTERVAL_SECONDS A)),
                                       Call (OperationsGet n),
                                       Yield (progress_update
                                         (in_progress_msg (polled_name polled_data reporting) p) p)]
                                      @ fst r, snd r)))
                 else
                   Some ([Call (Sleep (VEO_POLLING_INTERVAL_SECONDS A)), Call (OperationsGet n),
                          Yield (polling_issue (unexpected_msg session_id reporting polled_data))],
                         Return)))"

declare polling_loop.simps [code]

subsection \<open>After the loop (lines 242 to 355)\<close>

text \<open>Lines 284 to 287: the name of the object in the bucket.\<close>

definition video_filename_base :: "string \<Rightarrow> string \<Rightarrow> string" where
  "video_filename_base session_id u = ''veo_video_'' @ session_id @ ''_'' @ u"

definition extension :: "string \<Rightarrow> string" where
  "extension mime = (if CHR ''/'' \<in> set mime then split_last mime else ''mp4'')"

definition video_filename :: "string \<Rightarrow> string \<Rightarrow> string \<Rightarrow> string" where
  "video_filename session_id u mime = video_filename_base session_id u @ ''.'' @ extension mime"

definition gcs_blob_name :: "string \<Rightarrow> string \<Rightarrow> string \<Rightarrow> string" where
  "gcs_blob_name session_id u mime = session_id @ ''/'' @ video_filename session_id u mime"

text \<open>Line 267: \<^verbatim>\<open>video_obj.mime_type or "video/mp4"\<close>.\<close>

definition mime_or_default :: "veo_video \<Rightarrow> string" where
  "mime_or_default video_obj =
     (case mime_type video_obj of
        None \<Rightarrow> ''video/mp4''
      | Some m \<Rightarrow> if m = [] then ''video/mp4'' else m)"

definition completion_message :: "string \<Rightarrow> string \<Rightarrow> string" where
  "completion_message signed_gcs_url gcs_uri_after_upload =
     (if signed_gcs_url = gcs_uri_after_upload
      then ''Video generation successful. Video stored at GCS: '' @ gcs_uri_after_upload
             @ ''. A signed URL could not be generated.''
      else ''Video generation successful. Access video at link (expires): '' @ signed_gcs_url
             @ ''. Original GCS location: '' @ gcs_uri_after_upload)"

definition artifact_description_of :: "string \<Rightarrow> string \<Rightarrow> string" where
  "artifact_description_of prompt gcs_uri_after_upload =
     ''Generated video for prompt: '' @ squote @ prompt @ squote
       @ ''. Original GCS location: '' @ gcs_uri_after_upload"

text \<open>
  What a stretch of the generator's body leaves behind: what it did, the files on disk, and
  the exception it raised, if any.
\<close>

type_synonym outcome = "action list \<times> string set \<times> py_exn option"

text \<open>Lines 295 to 333, once the upload has returned \<open>gcs_uri_after_upload\<close>.\<close>

definition sign_and_report ::
  "agent \<Rightarrow> world \<Rightarrow> string \<Rightarrow> string \<Rightarrow> string \<Rightarrow> action list" where
  "sign_and_report A W prompt mime gcs_uri_after_upload =
     (if gcs_uri_after_upload \<noteq> [] then
        (let blob_name_for_signing =
               str_replace gcs_uri_after_upload (''gs://'' @ gcs_bucket_name A @ ''/'') [];
             signed_gcs_url =
               generate_signed_url W blob_name_for_signing (gcs_bucket_name A)
                 (SIGNED_URL_EXPIRATION_SECONDS A)
         in [Call (GenerateSignedUrl blob_name_for_signing (gcs_bucket_name A)
                     (SIGNED_URL_EXPIRATION_SECONDS A)),
             Yield (success_result signed_gcs_url mime (split_last gcs_uri_after_upload)
                      (artifact_description_of prompt gcs_uri_after_upload)
                      (completion_message signed_gcs_url gcs_uri_after_upload))])
      else
        [Yield (error_result
           ''VEO generation completed, but failed to obtain a GCS URI after upload for signing.''
           ''VEO generation completed, but failed to obtain a GCS URI after upload for signing.'')])"

text \<open>Lines 261 to 333: the first generated video is uploaded and signed.\<close>

definition finalize_video ::
  "agent \<Rightarrow> world \<Rightarrow> string \<Rightarrow> string \<Rightarrow> generated_video_info \<Rightarrow> outcome" where
  "finalize_video A W prompt session_id generated_video_info =
     (case video generated_video_info of
        None \<Rightarrow> ([], files W, Some (attribute_error ''NoneType'' ''mime_type''))
      | Some video_obj \<Rightarrow>
          (let mime = mime_or_default video_obj in
           case video_bytes video_obj of
             None \<Rightarrow>
               ([Yield (error_result ''VEO response video_obj has no video_bytes, cannot proceed.''
                          ''Video processing failed due to missing video byte data.'')],
                files W, None)
           | Some vbytes \<Rightarrow>
               if vbytes = [] then
                 ([Yield (error_result
                            ''VEO response video_obj has no video_bytes, cannot proceed.''
                            ''Video processing failed due to missing video byte data.'')],
                  files W, None)
               else
                 (let blob = gcs_blob_name session_id (uuid4 W) mime;
                      up = upload_bytes_to_gcs A W (files W) vbytes (gcs_bucket_name A) blob mime
                  in case fst up of
                       Inl e \<Rightarrow>
                         ([Call (UploadBytesToGcs vbytes (gcs_bucket_name A) blob mime)],
                          snd up, Some e)
                     | Inr gcs_uri_after_upload \<Rightarrow>
                         (Call (UploadBytesToGcs vbytes (gcs_bucket_name A) blob mime)
                            # sign_and_report A W prompt mime gcs_uri_after_upload,
                          snd up, None))))"

text \<open>Lines 335 to 355: the response holds no generated video.\<close>

definition blocked_msg :: "string list \<Rightarrow> string" where
  "blocked_msg reasons =
     ''Video generation was blocked by safety filters. Reasons: '' @ join '', '' reasons"

definition no_video_msg :: string where
  "no_video_msg = ''VEO generation completed, but no video was returned in the response and no explicit safety filter indicated.''"

text \<open>
  The \<^verbatim>\<open>elif\<close> of line 335 and the \<^verbatim>\<open>else\<close> of line 346. \<^verbatim>\<open>hasattr\<close> is false for a
  response that is None and for one without the count. A count that is present is compared
  with 0: the comparison of \<^verbatim>\<open>None\<close> with an integer raises \<^verbatim>\<open>TypeError\<close>. Above 0, the
  reasons are read with their default and joined: joining over \<^verbatim>\<open>None\<close> raises
  \<^verbatim>\<open>TypeError\<close> too.
\<close>

definition no_video :: "world \<Rightarrow> veo_response option \<Rightarrow> outcome" where
  "no_video W resp =
     (case resp of
        None \<Rightarrow> ([Yield (error_result no_video_msg no_video_msg)], files W, None)
      | Some r \<Rightarrow>
          (case rai_media_filtered_count r of
             Missing \<Rightarrow> ([Yield (error_result no_video_msg no_video_msg)], files W, None)
           | Has None \<Rightarrow>
               ([], files W,
                Some (PyExn ''TypeError''
                        (squote @ ''>'' @ squote @ '' not supported between instances of ''
                           @ squote @ ''NoneType'' @ squote @ '' and ''
                           @ squote @ ''int'' @ squote)))
           | Has (Some c) \<Rightarrow>
               if 0 < c then
                 (case rai_media_filtered_reasons r of
                    Missing \<Rightarrow>
                      ([Yield (error_result (blocked_msg [''Unknown safety filter.''])
                                 (blocked_msg [''Unknown safety filter.'']))],
                       files W, None)
                  | Has None \<Rightarrow>
                      ([], files W,
                       Some (PyExn ''TypeError''
                               (squote @ ''NoneType'' @ squote @ '' object is not iterable'')))
                  | Has (Some reasons) \<Rightarrow>
                      ([Yield (error_result (blocked_msg reasons) (blocked_msg reasons))],
                       files W, None))
               else ([Yield (error_result no_video_msg no_video_msg)], files W, None)))"

text \<open>Line 259: \<^verbatim>\<open>veo_operation.response and veo_operation.response.generated_videos\<close>.\<close>

definition first_video :: "veo_response option \<Rightarrow> generated_video_info option" where
  "first_video resp =
     (case resp of
        None \<Rightarrow> None
      | Some r \<Rightarrow>
          (case generated_videos r of
             None \<Rightarrow> None
           | Some [] \<Rightarrow> None
           | Some (g # gs) \<Rightarrow> Some g))"

text \<open>The bytes line 288 uploads, if the response has any: those of the first generated
  video, when they are not empty.\<close>

definition payload :: "veo_response option \<Rightarrow> bytes option" where
  "payload resp =
     (case first_video resp of
        None \<Rightarrow> None
      | Some g \<Rightarrow>
          (case video g of
             None \<Rightarrow> None
           | Some v \<Rightarrow>
               (case video_bytes v of
                  None \<Rightarrow> None
                | Some vbytes \<Rightarrow> if vbytes = [] then None else Some vbytes)))"

text \<open>
  Lines 242 to 355 with the operation the loop left by \<^verbatim>\<open>break\<close>. The log line 242 reads
  \<^verbatim>\<open>veo_operation.name\<close>, line 244 \<^verbatim>\<open>veo_operation.error\<close> and line 257
  \<^verbatim>\<open>veo_operation.response\<close>; each raises \<^verbatim>\<open>AttributeError\<close> on an object without it.
\<close>

definition after_polling ::
  "agent \<Rightarrow> world \<Rightarrow> string \<Rightarrow> string \<Rightarrow> py_object \<Rightarrow> outcome" where
  "after_polling A W prompt session_id veo_operation =
     (case op_name veo_operation of
        Missing \<Rightarrow> ([], files W, Some (attribute_error (obj_type veo_operation) ''name''))
      | Has nm \<Rightarrow>
          (case op_error veo_operation of
             Missing \<Rightarrow> ([], files W, Some (attribute_error (obj_type veo_operation) ''error''))
           | Has (Some err) \<Rightarrow>
               (let error_message_detail =
                      (case message err of Has m \<Rightarrow> m | Missing \<Rightarrow> error_str err);
                    error_message = ''VEO video generation failed: '' @ error_message_detail
                in ([Yield (error_result error_message error_message)], files W, None))
           | Has None \<Rightarrow>
               (case op_response veo_operation of
                  Missing \<Rightarrow>
                    ([], files W, Some (attribute_error (obj_type veo_operation) ''response''))
                | Has resp \<Rightarrow>
                    (case first_video resp of
                       Some g \<Rightarrow> finalize_video A W prompt session_id g
                     | None \<Rightarrow> no_video W resp))))"

subsection \<open>\<^verbatim>\<open>stream\<close>\<close>

definition received_msg :: "string \<Rightarrow> string" where
  "received_msg prompt =
     ''Received prompt: '' @ squote @ prompt @ squote @ ''. Starting VEO video generation.''"

definition started_msg :: "string \<Rightarrow> string" where
  "started_msg reporting =
     ''VEO operation '' @ squote @ reporting @ squote @ '' started. Polling for completion...''"

text \<open>Lines 192 to 195: the name reported for the operation just started.\<close>

definition initial_name :: "py_object \<Rightarrow> string" where
  "initial_name veo_operation =
     (case op_name veo_operation of
        Has (Some nm) \<Rightarrow> if nm \<noteq> [] then nm else ''N/A''
      | _ \<Rightarrow> ''N/A'')"

text \<open>The \<^verbatim>\<open>except Exception\<close> of line 357 around a stretch that raised or did not.\<close>

definition handled :: "string \<Rightarrow> string \<Rightarrow> outcome \<Rightarrow> action list \<times> string set" where
  "handled session_id ctx out =
     (case snd (snd out) of
        None \<Rightarrow> (fst out, fst (snd out))
      | Some e \<Rightarrow> (fst out @ [Yield (exception_result session_id e ctx)], fst (snd out)))"

text \<open>
  What follows the loop inside the \<^verbatim>\<open>try\<close>, with the handler: nothing after the
  \<^verbatim>\<open>return\<close> of line 231, the handler's dictionary after an exception, lines 242 to 355
  (and the handler, if they raise) after the \<^verbatim>\<open>break\<close>.
\<close>

definition after_loop ::
  "agent \<Rightarrow> world \<Rightarrow> string \<Rightarrow> string \<Rightarrow> loop_exit \<Rightarrow> action list \<times> string set" where
  "after_loop A W prompt session_id ex =
     (case ex of
        Return \<Rightarrow> ([], files W)
      | Raise e reporting \<Rightarrow>
          ([Yield (exception_result session_id e (''VEO operation name: '' @ reporting))],
           files W)
      | Break op reporting \<Rightarrow>
          handled session_id (''VEO operation name: '' @ reporting)
            (after_polling A W prompt session_id op))"

text \<open>
  The generator, run to its end: the trace and the files left on disk. The first
  dictionary is yielded before the \<^verbatim>\<open>try\<close>; everything after it is inside.
\<close>

definition stream :: "agent \<Rightarrow> world \<Rightarrow> string \<Rightarrow> string \<Rightarrow> (action list \<times> string set) option" where
  "stream A W prompt session_id =
     (case generate_videos W of
        Inl e \<Rightarrow>
          Some ([Yield (progress_update (received_msg prompt) 0), Call (GenerateVideos prompt),
                 Yield (exception_result session_id e ''VEO operation not started.'')],
                files W)
      | Inr veo_operation \<Rightarrow>
          Option.bind
            (polling_loop A W session_id 0 veo_operation (initial_name veo_operation))
            (\<lambda>r. Some ([Yield (progress_update (received_msg prompt) 0),
                         Call (GenerateVideos prompt),
                         Yield (progress_update (started_msg (initial_name veo_operation)) 5)]
                        @ fst r @ fst (after_loop A W prompt session_id (snd r)),
                        snd (after_loop A W prompt session_id (snd r)))))"

text \<open>The dictionaries of a trace, and the tests the properties use.\<close>

fun events :: "action list \<Rightarrow> event list" where
  "events [] = []"
| "events (Yield e # tr) = e # events tr"
| "events (Call c # tr) = events tr"

fun calls :: "action list \<Rightarrow> call list" where
  "calls [] = []"
| "calls (Yield e # tr) = calls tr"
| "calls (Call c # tr) = c # calls tr"

fun is_finalizer_call :: "call \<Rightarrow> bool" where
  "is_finalizer_call (UploadBytesToGcs vb b bl m) = True"
| "is_finalizer_call (GenerateSignedUrl bl b x) = True"
| "is_finalizer_call c = False"

text \<open>The estimate as section 4.3 of the specification words it:
  \<^verbatim>\<open>min(floor(elapsed/total*100), 99)\<close>, floored at 5.\<close>

definition spec_estimate :: "real \<Rightarrow> int \<Rightarrow> int" where
  "spec_estimate elapsedSeconds assumedTotalSeconds =
     max 5 (min \<lfloor>elapsedSeconds / real_of_int assumedTotalSeconds * 100\<rfloor> 99)"

text \<open>A single dictionary, terminal and at 100 percent.\<close>

definition one_terminal :: "event list \<Rightarrow> bool" where
  "one_terminal evs = (\<exists>t. evs = [t] \<and> is_task_complete t \<and> progress_percent t = 100)"

text \<open>A stretch either yields its one terminal dictionary or raises before yielding any.\<close>

definition settles :: "outcome \<Rightarrow> bool" where
  "settles out =
     (case snd (snd out) of
        None \<Rightarrow> one_terminal (events (fst out))
      | Some e \<Rightarrow> events (fst out) = [])"

text \<open>What the loop yields last, by the way it is left.\<close>

definition loop_tail :: "loop_exit \<Rightarrow> event list \<Rightarrow> bool" where
  "loop_tail ex evs =
     (case ex of Return \<Rightarrow> one_terminal evs \<and> is_error (hd evs) = None | _ \<Rightarrow> evs = [])"

text \<open>The polls of a trace, by their number.\<close>

fun polls :: "action list \<Rightarrow> nat list" where
  "polls [] = []"
| "polls (Call (OperationsGet i) # tr) = i # polls tr"
| "polls (a # tr) = polls tr"

text \<open>The polls \<open>n\<close>, ..., \<open>n + k - 1\<close> each answer an object that has \<^verbatim>\<open>done\<close> (false) and
  \<^verbatim>\<open>name\<close>: the operation is still running.\<close>

fun pending :: "world \<Rightarrow> nat \<Rightarrow> nat \<Rightarrow> bool" where
  "pending W n 0 = True"
| "pending W n (Suc k) =
     (case operations_get W n of
        Inl e \<Rightarrow> False
      | Inr polled_data \<Rightarrow>
          op_done polled_data = Has False \<and> op_name polled_data \<noteq> Missing
          \<and> pending W (Suc n) k)"

text \<open>The shape of \<^verbatim>\<open>str(uuid.uuid4())\<close> as the Python library documents it: 36
  characters, each a hexadecimal digit or a hyphen.\<close>

definition uuid_str :: "string \<Rightarrow> bool" where
  "uuid_str u = (length u = 36 \<and> list_all (\<lambda>c. c \<in> set ''0123456789abcdef-'') u)"

subsection \<open>Example agent, operations and worlds\<close>

definition example_agent :: agent where
  "example_agent =
     \<lparr>VEO_POLLING_INTERVAL_SECONDS = 5, VEO_SIMULATED_TOTAL_GENERATION_TIME_SECONDS = 120,
      SIGNED_URL_EXPIRATION_SECONDS = 3600 * 48, gcs_bucket_name = ''bucket'',
      storage_client = True\<rparr>"

text \<open>An operation that is not done, with the name attribute as given.\<close>

definition running :: "string option attr \<Rightarrow> py_object" where
  "running nm =
     \<lparr>op_done = Has False, op_name = nm, op_error = Has None, op_response = Has None,
      obj_str = ''op'', obj_type = ''Operation''\<rparr>"

text \<open>An operation that is done, with the given error and response.\<close>

definition finished :: "veo_error option \<Rightarrow> veo_response option \<Rightarrow> py_object" where
  "finished err resp =
     \<lparr>op_done = Has True, op_name = Has (Some ''operations/1''), op_error = Has err,
      op_response = Has resp, obj_str = ''op'', obj_type = ''Operation''\<rparr>"

definition one_video :: veo_response where
  "one_video =
     \<lparr>generated_videos =
        Some [\<lparr>video = Some \<lparr>video_bytes = Some ''fake-mp4'', mime_type = Some ''video/mp4''\<rparr>\<rparr>],
      rai_media_filtered_count = Missing, rai_media_filtered_reasons = Missing\<rparr>"

text \<open>A value that is no operation: it has none of the attributes.\<close>

definition junk :: py_object where
  "junk =
     \<lparr>op_done = Missing, op_name = Missing, op_error = Missing, op_response = Missing,
      obj_str = ''{}'', obj_type = ''dict''\<rparr>"

text \<open>A polled value that has \<^verbatim>\<open>done\<close> and no \<^verbatim>\<open>name\<close>.\<close>

definition nameless :: py_object where
  "nameless =
     \<lparr>op_done = Has True, op_name = Missing, op_error = Has None, op_response = Has None,
      obj_str = ''op'', obj_type = ''Operation''\<rparr>"

text \<open>A response without videos that two safety filters blocked, and a backend error.\<close>

definition blocked :: veo_response where
  "blocked =
     \<lparr>generated_videos = None, rai_media_filtered_count = Has (Some 2),
      rai_media_filtered_reasons = Has (Some [''violence'', ''celebrity''])\<rparr>"

text \<open>A response that safety filters blocked twice and that still lists a video, without
  bytes; and a response without videos whose count is \<^verbatim>\<open>None\<close>.\<close>

definition no_bytes :: veo_response where
  "no_bytes =
     \<lparr>generated_videos =
        Some [\<lparr>video = Some \<lparr>video_bytes = None, mime_type = Some ''video/mp4''\<rparr>\<rparr>],
      rai_media_filtered_count = Has (Some 2),
      rai_media_filtered_reasons = Has (Some [''violence'', ''celebrity''])\<rparr>"

definition count_none :: veo_response where
  "count_none =
     \<lparr>generated_videos = None, rai_media_filtered_count = Has None,
      rai_media_filtered_reasons = Has None\<rparr>"

definition quota_error :: veo_error where
  "quota_error = \<lparr>message = Has ''quota exceeded'', error_str = ''{code: 8}''\<rparr>"

text \<open>A world in which the operation starts without a name, the first poll finds it still
  running and the later polls answer \<open>final\<close>; the clock advances 30 seconds a reading,
  the disk is empty, writing and uploading succeed and signing fails.\<close>

definition example_world :: "(py_exn + py_object) \<Rightarrow> world" where
  "example_world final =
     \<lparr>generate_videos = Inr (running Missing),
      operations_get = (\<lambda>n. if n = 0 then Inr (running (Has (Some ''operations/1''))) else final),
      monotonic = (\<lambda>n. real n * 30),
      uuid4 = ''123e4567-e89b-42d3-a456-426614174000'',
      gettempdir = ''/tmp'', files = {},
      open_wb = None, f_write = None, blob_upload_from_filename = None,
      blob_generate_signed_url = Inl (PyExn ''TransportError'' ''signing failed'')\<rparr>"

section \<open>Properties\<close>

subsection \<open>Strings\<close>

lemma split_last_no_slash: "CHR ''/'' \<notin> set (split_last s)"
  unfolding split_last_def by (auto dest: set_takeWhileD)

lemma extension_no_slash: "CHR ''/'' \<notin> set (extension mime)"
  by (simp add: extension_def split_last_no_slash)

lemma count_blob:
  assumes "CHR ''/'' \<notin> set session_id" "CHR ''/'' \<notin> set u"
  shows "count_list (gcs_blob_name session_id u mime) CHR ''/'' = 1"
  using assms extension_no_slash[of mime]
  by (simp add: gcs_blob_name_def video_filename_def video_filename_base_def)

text \<open>A text with fewer occurrences of some character than the pattern has holds no
  occurrence of the pattern, and \<^verbatim>\<open>replace\<close> leaves it as it is.\<close>

lemma replace_scan_absent:
  "count_list s c < count_list old c \<Longrightarrow> replace_scan old new s = s"
proof (induction old new s rule: replace_scan.induct)
  case (1 old new s)
  show ?case
  proof (cases "s = [] \<or> old = []")
    case True
    then show ?thesis by (subst replace_scan.simps) simp
  next
    case False
    have nopre: "take (length old) s \<noteq> old"
    proof
      assume eq: "take (length old) s = old"
      have "count_list s c = count_list (take (length old) s) c + count_list (drop (length old) s) c"
        by (metis append_take_drop_id count_list_append)
      with eq "1.prems" show False by simp
    qed
    from False obtain x xs where s: "s = x # xs" by (cases s) auto
    have "count_list (tl s) c \<le> count_list s c" using s by simp
    with "1.prems" have "count_list (tl s) c < count_list old c" by simp
    with "1.IH"(2)[OF False nopre] have "replace_scan old new (tl s) = tl s" .
    with False nopre s show ?thesis by (subst replace_scan.simps) simp
  qed
qed

lemma replace_scan_prefix:
  "old \<noteq> [] \<Longrightarrow> replace_scan old new (old @ r) = new @ replace_scan old new r"
  by (subst replace_scan.simps) simp

lemma strip_locator:
  assumes "count_list blob CHR ''/'' \<le> 2"
  shows "str_replace (''gs://'' @ b @ ''/'' @ blob) (''gs://'' @ b @ ''/'') [] = blob"
proof -
  let ?old = "''gs://'' @ b @ ''/''"
  have ne: "?old \<noteq> []" by simp
  have "count_list blob CHR ''/'' < count_list ?old CHR ''/''" using assms by simp
  then have "replace_scan ?old [] blob = blob" by (rule replace_scan_absent)
  moreover have "''gs://'' @ b @ ''/'' @ blob = ?old @ blob" by simp
  ultimately show ?thesis
    unfolding str_replace_def using replace_scan_prefix[OF ne, of "[]" blob]
    by (simp del: append.simps)
qed

subsection \<open>The temporary file of the upload\<close>

lemma upload_try_files:
  "snd (upload_try W path fs) = fs \<or> snd (upload_try W path fs) = insert path fs"
  by (simp add: upload_try_def split: option.splits)

text \<open>
  C9. Once \<^verbatim>\<open>_upload_bytes_to_gcs\<close> has passed its storage-client check, the temporary file
  does not exist when the method is left, whatever \<^verbatim>\<open>open\<close>, \<^verbatim>\<open>f.write\<close> and
  \<^verbatim>\<open>blob.upload_from_filename\<close> do (return or raise): the disk is what it was before the
  call, less the temporary path. The method returns the \<^verbatim>\<open>gs://\<close> locator exactly when none
  of the three raised, and raises otherwise.
\<close>

theorem temp_file_removed_on_every_exit:
  assumes "storage_client A"
  shows "temp_file_path W blob_name
           \<notin> snd (upload_bytes_to_gcs A W fs vbytes bucket_name blob_name content_type)
         \<and> snd (upload_bytes_to_gcs A W fs vbytes bucket_name blob_name content_type)
             = fs - {temp_file_path W blob_name}
         \<and> (fst (upload_bytes_to_gcs A W fs vbytes bucket_name blob_name content_type)
              = Inr (''gs://'' @ bucket_name @ ''/'' @ blob_name))
             = (open_wb W = None \<and> f_write W = None \<and> blob_upload_from_filename W = None)"
proof -
  let ?p = "temp_file_path W blob_name"
  have files: "snd (upload_bytes_to_gcs A W fs vbytes bucket_name blob_name content_type) = fs - {?p}"
    using assms upload_try_files[of W ?p fs]
    by (auto simp: upload_bytes_to_gcs_def Let_def split: option.splits)
  have res: "(fst (upload_bytes_to_gcs A W fs vbytes bucket_name blob_name content_type)
              = Inr (''gs://'' @ bucket_name @ ''/'' @ blob_name))
             = (open_wb W = None \<and> f_write W = None \<and> blob_upload_from_filename W = None)"
    using assms
    by (auto simp: upload_bytes_to_gcs_def upload_try_def Let_def split: option.splits)
  from files res show ?thesis by simp
qed

theorem temp_file_removed_witness:
  "storage_client example_agent
   \<and> ''/tmp/v.mp4'' \<notin> snd (upload_bytes_to_gcs example_agent
         ((example_world (Inr junk))\<lparr>blob_upload_from_filename := Some (PyExn ''Forbidden'' ''403'')\<rparr>)
         {''/tmp/v.mp4'', ''/tmp/other''} ''fake-mp4'' ''bucket'' ''t1/v.mp4'' ''video/mp4'')
   \<and> fst (upload_bytes_to_gcs example_agent
         ((example_world (Inr junk))\<lparr>blob_upload_from_filename := Some (PyExn ''Forbidden'' ''403'')\<rparr>)
         {''/tmp/v.mp4'', ''/tmp/other''} ''fake-mp4'' ''bucket'' ''t1/v.mp4'' ''video/mp4'')
       = Inl (PyExn ''Forbidden'' ''403'')"
  using temp_file_removed_on_every_exit [of example_agent
      "(example_world (Inr junk))\<lparr>blob_upload_from_filename := Some (PyExn ''Forbidden'' ''403'')\<rparr>"
      "''t1/v.mp4''" "{''/tmp/v.mp4'', ''/tmp/other''}" "''fake-mp4''" "''bucket''" "''video/mp4''"]
  by (simp add: example_agent_def example_world_def temp_file_path_def split_last_def
        upload_bytes_to_gcs_def upload_try_def)

subsection \<open>The shape of a run\<close>

lemma events_append [simp]: "events (xs @ ys) = events xs @ events ys"
  by (induction xs rule: events.induct) auto

lemma calls_append [simp]: "calls (xs @ ys) = calls xs @ calls ys"
  by (induction xs rule: calls.induct) auto

lemma current_progress_estimate:
  assumes "current_progress A e = Inr p"
  shows "p = spec_estimate e (VEO_SIMULATED_TOTAL_GENERATION_TIME_SECONDS A)"
proof -
  let ?x = "e / real_of_int (VEO_SIMULATED_TOTAL_GENERATION_TIME_SECONDS A) * 100"
  from assms have p: "p = max 5 (min (py_int ?x) 99)"
    by (auto simp: current_progress_def Let_def split: if_splits)
  show ?thesis
  proof (cases "0 \<le> ?x")
    case True
    with p show ?thesis by (simp add: py_int_def spec_estimate_def)
  next
    case False
    then have "\<lceil>?x\<rceil> \<le> 0" "\<lfloor>?x\<rfloor> \<le> 0" by (simp_all add: ceiling_le_iff floor_le_iff) 
    with p False show ?thesis by (simp add: py_int_def spec_estimate_def)
  qed
qed

lemma loop_calls:
  assumes "polling_loop A W sid n op rep = Some y"
  shows "filter is_finalizer_call (calls (fst y)) = []"
proof (rule polling_loop.raw_induct
    [OF _ assms, where P = "\<lambda>A W sid n op rep y. filter is_finalizer_call (calls (fst y)) = []"],
    goal_cases)
  case (1 f A W sid n op rep y)
  then show ?case
    by (auto split: attr.splits sum.splits if_splits Option.bind_splits)
qed

lemma loop_break:
  assumes "polling_loop A W sid n op rep = Some y"
  shows "snd y = Break op' rep' \<longrightarrow> op_done op' = Has True"
proof (rule polling_loop.raw_induct
    [OF _ assms, where P = "\<lambda>A W sid n op rep y. snd y = Break op' rep' \<longrightarrow> op_done op' = Has True"],
    goal_cases)
  case (1 f A W sid n op rep y)
  then show ?case
    by (auto split: attr.splits sum.splits if_splits Option.bind_splits)
qed

lemma loop_events:
  assumes "polling_loop A W sid n op rep = Some y"
  shows "\<exists>ws ts. events (fst y) = ws @ ts \<and> loop_tail (snd y) ts
           \<and> list_all (\<lambda>e. \<exists>nm p. e = progress_update (in_progress_msg nm p) p) ws
           \<and> map progress_percent ws
               = map (\<lambda>i. spec_estimate (monotonic W (Suc i) - monotonic W 0)
                             (VEO_SIMULATED_TOTAL_GENERATION_TIME_SECONDS A))
                   [n..<n + length ws]"
proof (rule polling_loop.raw_induct
    [OF _ assms, where P = "\<lambda>A W sid n op rep y.
         \<exists>ws ts. events (fst y) = ws @ ts \<and> loop_tail (snd y) ts
           \<and> list_all (\<lambda>e. \<exists>nm p. e = progress_update (in_progress_msg nm p) p) ws
           \<and> map progress_percent ws
               = map (\<lambda>i. spec_estimate (monotonic W (Suc i) - monotonic W 0)
                             (VEO_SIMULATED_TOTAL_GENERATION_TIME_SECONDS A))
                   [n..<n + length ws]"],
    goal_cases)
  case (1 f A W sid n op rep y)
  let ?F = "\<lambda>i. spec_estimate (monotonic W (Suc i) - monotonic W 0)
                             (VEO_SIMULATED_TOTAL_GENERATION_TIME_SECONDS A)"
  note body = "1"(2)
  show ?case
  proof (cases "op_done op")
    case Missing
    with body have "events (fst y) = [] \<and> loop_tail (snd y) []"
      by (auto simp: loop_tail_def)
    then show ?thesis by auto
  next
    case (Has d)
    show ?thesis
    proof (cases d)
      case True
      with Has body have "events (fst y) = [] \<and> loop_tail (snd y) []"
        by (auto simp: loop_tail_def)
      then show ?thesis by auto
    next
      case False
      show ?thesis
      proof (cases "operations_get W n")
        case (Inl e)
        with Has False body have "events (fst y) = [] \<and> loop_tail (snd y) []"
          by (auto simp: loop_tail_def)
        then show ?thesis by auto
      next
        case (Inr pd)
        show ?thesis
        proof (cases "op_done pd \<noteq> Missing \<and> op_name pd \<noteq> Missing")
          case wf: True
          show ?thesis
          proof (cases "current_progress A (monotonic W (Suc n) - monotonic W 0)")
            case (Inl e)
            with Has False Inr wf body have "events (fst y) = [] \<and> loop_tail (snd y) []"
              by (auto simp: loop_tail_def)
            then show ?thesis by auto
          next
            case cp: (Inr p)
            from Has False Inr wf cp body obtain r where
              rec: "f A W sid (Suc n) pd (polled_name pd rep) = Some r" and
              y: "y = ([Call (Sleep (VEO_POLLING_INTERVAL_SECONDS A)), Call (OperationsGet n),
                        Yield (progress_update (in_progress_msg (polled_name pd rep) p) p)]
                       @ fst r, snd r)"
              by (auto split: Option.bind_splits)
            from "1"(1)[OF rec] obtain ws ts where
              ih: "events (fst r) = ws @ ts" "loop_tail (snd r) ts"
                  "list_all (\<lambda>e. \<exists>nm p. e = progress_update (in_progress_msg nm p) p) ws"
                  "map progress_percent ws = map ?F [Suc n..<Suc n + length ws]"
              by blast
            let ?e = "progress_update (in_progress_msg (polled_name pd rep) p) p"
            have p: "p = ?F n" using current_progress_estimate[OF cp] .
            have "events (fst y) = (?e # ws) @ ts" using y ih(1) by simp
            moreover have "loop_tail (snd y) ts" using y ih(2) by simp
            moreover have
              "list_all (\<lambda>e. \<exists>nm p. e = progress_update (in_progress_msg nm p) p) (?e # ws)"
              using ih(3) by auto
            moreover have "map progress_percent (?e # ws) = map ?F [n..<n + length (?e # ws)]"
            proof -
              have "[n..<n + length (?e # ws)] = n # [Suc n..<Suc n + length ws]"
                by (simp add: upt_conv_Cons del: upt_Suc)
              then show ?thesis using ih(4) p by (simp add: progress_update_def del: upt_Suc)
            qed
            ultimately show ?thesis by blast
          qed
        next
          case bad: False
          with Has False Inr body have
            "events (fst y) = [] @ [polling_issue (unexpected_msg sid rep pd)]" "snd y = Return"
            by auto
          moreover have "loop_tail Return [polling_issue (unexpected_msg sid rep pd)]"
            by (simp add: loop_tail_def one_terminal_def polling_issue_def)
          ultimately show ?thesis
            by (intro exI[of _ "[]"] exI[of _ "[polling_issue (unexpected_msg sid rep pd)]"]) simp
        qed
      qed
    qed
  qed
qed

lemma one_terminal_error_result [simp]: "one_terminal [error_result c f]"
  by (simp add: one_terminal_def error_result_def)

lemma one_terminal_success_result [simp]: "one_terminal [success_result u m n d c]"
  by (simp add: one_terminal_def success_result_def)

lemma events_sign_and_report: "one_terminal (events (sign_and_report A W prompt mime u))"
  by (simp add: sign_and_report_def Let_def)

lemma settles_finalize_video: "settles (finalize_video A W prompt sid g)"
  by (simp add: finalize_video_def settles_def Let_def events_sign_and_report
           split: option.splits sum.splits)

lemma settles_no_video: "settles (no_video W resp)"
  by (simp add: no_video_def settles_def split: option.splits attr.splits)

lemma settles_after_polling: "settles (after_polling A W prompt sid op)"
proof (cases "\<exists>resp g. op_name op \<noteq> Missing \<and> op_error op = Has None
                \<and> op_response op = Has resp \<and> first_video resp = Some g")
  case True
  then show ?thesis
    using settles_finalize_video[of A W prompt sid]
    by (auto simp: after_polling_def split: attr.splits option.splits)
next
  case False
  then show ?thesis
    using settles_no_video[of W]
    by (auto simp: after_polling_def settles_def[of "([], fs, Some e)" for fs e]
               settles_def[of "([Yield (error_result c f)], fs, None)" for c f fs] Let_def
             split: attr.splits option.splits)
qed

lemma handled_one_terminal:
  "settles out \<Longrightarrow> one_terminal (events (fst (handled sid ctx out)))"
  by (auto simp: settles_def handled_def exception_result_def split: option.splits)

lemma stream_started:
  assumes "stream A W prompt sid = Some (tr, fs)" "generate_videos W = Inr op0"
  shows "\<exists>ltr ex. polling_loop A W sid 0 op0 (initial_name op0) = Some (ltr, ex)
           \<and> tr = [Yield (progress_update (received_msg prompt) 0), Call (GenerateVideos prompt),
                    Yield (progress_update (started_msg (initial_name op0)) 5)]
                   @ ltr @ fst (after_loop A W prompt sid ex)
           \<and> fs = snd (after_loop A W prompt sid ex)"
  using assms by (auto simp: stream_def split: Option.bind_splits)

lemma stream_finished:
  assumes "generate_videos W = Inr op0"
    "polling_loop A W sid 0 op0 (initial_name op0) = Some (ltr, ex)"
  shows "stream A W prompt sid =
           Some ([Yield (progress_update (received_msg prompt) 0), Call (GenerateVideos prompt),
                  Yield (progress_update (started_msg (initial_name op0)) 5)]
                 @ ltr @ fst (after_loop A W prompt sid ex),
                 snd (after_loop A W prompt sid ex))"
  using assms by (simp add: stream_def)

lemma after_loop_events:
  "loop_tail ex ts \<Longrightarrow> \<exists>t. ts @ events (fst (after_loop A W prompt sid ex)) = [t]
         \<and> is_task_complete t \<and> progress_percent t = 100"
proof (cases ex)
  case (Break op reporting)
  assume "loop_tail ex ts"
  with Break have "ts = []" by (simp add: loop_tail_def)
  moreover have "one_terminal (events (fst (after_loop A W prompt sid ex)))"
    using Break handled_one_terminal[OF settles_after_polling] by (simp add: after_loop_def)
  ultimately show ?thesis by (auto simp: one_terminal_def)
next
  case Return
  assume "loop_tail ex ts"
  with Return show ?thesis by (auto simp: loop_tail_def one_terminal_def after_loop_def)
next
  case (Raise e reporting)
  assume "loop_tail ex ts"
  with Raise show ?thesis
    by (auto simp: loop_tail_def after_loop_def exception_result_def error_result_def)
qed

lemma stream_shape:
  assumes "stream A W prompt sid = Some (tr, fs)"
  shows "\<exists>started polled t.
           events tr = progress_update (received_msg prompt) 0 # started @ polled @ [t]
         \<and> (started = [] \<and> polled = []
            \<or> (\<exists>nm. started = [progress_update (started_msg nm) 5]))
         \<and> list_all (\<lambda>e. \<exists>nm p. e = progress_update (in_progress_msg nm p) p) polled
         \<and> map progress_percent polled
             = map (\<lambda>i. spec_estimate (monotonic W (Suc i) - monotonic W 0)
                          (VEO_SIMULATED_TOTAL_GENERATION_TIME_SECONDS A))
                 [0..<length polled]
         \<and> is_task_complete t \<and> progress_percent t = 100"
proof (cases "generate_videos W")
  case (Inl e)
  with assms have "events tr = progress_update (received_msg prompt) 0 # [] @ [] @
      [exception_result sid e ''VEO operation not started.'']"
    by (auto simp: stream_def)
  moreover have "is_task_complete (exception_result sid e ''VEO operation not started.'')"
     "progress_percent (exception_result sid e ''VEO operation not started.'') = 100"
    by (simp_all add: exception_result_def error_result_def)
  ultimately show ?thesis
    by (intro exI[of _ "[]"] exI[of _ "exception_result sid e ''VEO operation not started.''"]) simp
next
  case (Inr op0)
  let ?E0 = "progress_update (received_msg prompt) 0"
  let ?E5 = "progress_update (started_msg (initial_name op0)) 5"
  from stream_started[OF assms Inr] obtain ltr ex where
    loop: "polling_loop A W sid 0 op0 (initial_name op0) = Some (ltr, ex)" and
    tr: "tr = [Yield ?E0, Call (GenerateVideos prompt), Yield ?E5]
              @ ltr @ fst (after_loop A W prompt sid ex)"
    by blast
  from loop_events[OF loop] obtain ws ts where
    sh: "events ltr = ws @ ts" "loop_tail ex ts"
        "list_all (\<lambda>e. \<exists>nm p. e = progress_update (in_progress_msg nm p) p) ws"
        "map progress_percent ws
           = map (\<lambda>i. spec_estimate (monotonic W (Suc i) - monotonic W 0)
                        (VEO_SIMULATED_TOTAL_GENERATION_TIME_SECONDS A)) [0..<0 + length ws]"
    by auto
  from after_loop_events[OF sh(2)] obtain t where
    t: "ts @ events (fst (after_loop A W prompt sid ex)) = [t]"
       "is_task_complete t" "progress_percent t = 100"
    by blast
  have "events tr = ?E0 # [?E5] @ ws @ (ts @ events (fst (after_loop A W prompt sid ex)))"
    using tr sh(1) by simp
  with t have "events tr = ?E0 # [?E5] @ ws @ [t]" by simp
  with sh(3,4) t(2,3) show ?thesis
    by (intro exI[of _ "[?E5]"] exI[of _ ws] exI[of _ t]) auto
qed

subsection \<open>The estimate and the clock\<close>

lemma spec_estimate_range: "5 \<le> spec_estimate e T \<and> spec_estimate e T \<le> 99"
  by (simp add: spec_estimate_def)

lemma spec_estimate_mono:
  assumes "0 \<le> e1" "e1 \<le> e2"
  shows "spec_estimate e1 T \<le> spec_estimate e2 T"
proof (cases "0 < T")
  case True
  then have "e1 / real_of_int T * 100 \<le> e2 / real_of_int T * 100"
    using assms by (simp add: divide_right_mono)
  then have "\<lfloor>e1 / real_of_int T * 100\<rfloor> \<le> \<lfloor>e2 / real_of_int T * 100\<rfloor>"
    by (rule floor_mono)
  then show ?thesis by (simp add: spec_estimate_def)
next
  case False
  then have "e1 / real_of_int T \<le> 0" using assms
    by (simp add: divide_nonneg_nonpos)
  then have "e1 / real_of_int T * 100 \<le> 0" by (intro mult_nonpos_nonneg) simp_all
  then have "\<lfloor>e1 / real_of_int T * 100\<rfloor> \<le> 0" by (simp add: floor_le_iff)
  then have "spec_estimate e1 T = 5" by (simp add: spec_estimate_def)
  then show ?thesis using spec_estimate_range[of e2 T] by simp
qed

lemma clock_mono:
  assumes "\<And>i. monotonic W i \<le> monotonic W (Suc i)"
  shows "i \<le> j \<Longrightarrow> monotonic W i \<le> monotonic W j"
  using assms by (rule lift_Suc_mono_le)

lemma sorted_estimates:
  assumes "\<And>i. monotonic W i \<le> monotonic W (Suc i)"
  shows "sorted (map (\<lambda>i. spec_estimate (monotonic W (Suc i) - monotonic W 0) T) [0..<m])"
proof -
  have "sorted_wrt (\<lambda>i j. spec_estimate (monotonic W (Suc i) - monotonic W 0) T
                          \<le> spec_estimate (monotonic W (Suc j) - monotonic W 0) T) [0..<m]"
  proof (rule sorted_wrt_mono_rel[of "[0..<m]" "(\<le>)"])
    fix i j :: nat
    assume "i \<le> j"
    then have "monotonic W (Suc i) \<le> monotonic W (Suc j)"
      using clock_mono[OF assms, of "Suc i" "Suc j"] by simp
    moreover have "monotonic W 0 \<le> monotonic W (Suc i)"
      using clock_mono[OF assms, of 0 "Suc i"] by simp
    ultimately show "spec_estimate (monotonic W (Suc i) - monotonic W 0) T
                          \<le> spec_estimate (monotonic W (Suc j) - monotonic W 0) T"
      by (intro spec_estimate_mono) simp_all
  next
    show "sorted_wrt (\<le>) [0..<m]" by simp
  qed
  then show ?thesis by (simp add: sorted_map)
qed

lemma filter_terminal_polled:
  assumes "list_all (\<lambda>e. \<exists>nm p. e = progress_update (in_progress_msg nm p) p) polled"
  shows "filter is_task_complete polled = []"
    and "filter (\<lambda>e. \<not> is_task_complete e) polled = polled"
  using assms by (auto simp: list_all_iff progress_update_def filter_empty_conv filter_id_conv)

subsection \<open>One terminal dictionary, and it is the last\<close>

text \<open>
  C1. Whenever \<^verbatim>\<open>stream\<close> runs to its end, the dictionaries it has yielded hold exactly one
  with \<^verbatim>\<open>is_task_complete\<close> true, and that one is the last. The world is arbitrary: the
  start call, any poll, the progress arithmetic, any attribute read after the loop, the
  upload may raise. When the start call raises, when the loop raises, or when the code
  after the loop raises, the last dictionary is the one the handler of line 357 builds
  from that exception (\<^verbatim>\<open>is_error\<close> true, 100 percent).
\<close>

theorem exactly_one_terminal_event_last:
  assumes "stream A W prompt session_id = Some (tr, fs)"
  shows "events tr \<noteq> []
       \<and> is_task_complete (last (events tr))
       \<and> length (filter is_task_complete (events tr)) = 1
       \<and> (\<forall>e. generate_videos W = Inl e \<longrightarrow>
             last (events tr) = exception_result session_id e ''VEO operation not started.'')
       \<and> (\<forall>op0 ltr e reporting.
             generate_videos W = Inr op0
             \<and> polling_loop A W session_id 0 op0 (initial_name op0) = Some (ltr, Raise e reporting)
             \<longrightarrow> last (events tr)
                   = exception_result session_id e (''VEO operation name: '' @ reporting))
       \<and> (\<forall>op0 ltr op reporting e.
             generate_videos W = Inr op0
             \<and> polling_loop A W session_id 0 op0 (initial_name op0) = Some (ltr, Break op reporting)
             \<and> snd (snd (after_polling A W prompt session_id op)) = Some e
             \<longrightarrow> last (events tr)
                   = exception_result session_id e (''VEO operation name: '' @ reporting))"
proof -
  from stream_shape[OF assms] obtain started polled t where
    sh: "events tr = progress_update (received_msg prompt) 0 # started @ polled @ [t]"
        "started = [] \<and> polled = [] \<or> (\<exists>nm. started = [progress_update (started_msg nm) 5])"
        "list_all (\<lambda>e. \<exists>nm p. e = progress_update (in_progress_msg nm p) p) polled"
        "is_task_complete t"
    by blast
  have "filter is_task_complete started = []"
    using sh(2) by (auto simp: progress_update_def)
  with sh(1,4) filter_terminal_polled(1)[OF sh(3)]
  have one: "events tr \<noteq> [] \<and> is_task_complete (last (events tr))
       \<and> length (filter is_task_complete (events tr)) = 1"
    by (simp add: progress_update_def)
  have start: "\<forall>e. generate_videos W = Inl e \<longrightarrow>
             last (events tr) = exception_result session_id e ''VEO operation not started.''"
    using assms by (auto simp: stream_def)
  have loop: "\<forall>op0 ltr e reporting.
             generate_videos W = Inr op0
             \<and> polling_loop A W session_id 0 op0 (initial_name op0) = Some (ltr, Raise e reporting)
             \<longrightarrow> last (events tr)
                   = exception_result session_id e (''VEO operation name: '' @ reporting)"
    using assms by (auto simp: stream_def after_loop_def)
  have after: "\<forall>op0 ltr op reporting e.
             generate_videos W = Inr op0
             \<and> polling_loop A W session_id 0 op0 (initial_name op0) = Some (ltr, Break op reporting)
             \<and> snd (snd (after_polling A W prompt session_id op)) = Some e
             \<longrightarrow> last (events tr)
                   = exception_result session_id e (''VEO operation name: '' @ reporting)"
    using assms by (auto simp: stream_def after_loop_def handled_def)
  from one start loop after show ?thesis by blast
qed

theorem exactly_one_terminal_event_witness:
  "\<exists>tr fs. stream example_agent (example_world (Inl (PyExn ''ServerError'' ''503''))) ''a cat'' ''t1''
              = Some (tr, fs)
     \<and> map progress_percent (events tr) = [0, 5, 25, 100]
     \<and> map is_task_complete (events tr) = [False, False, False, True]
     \<and> is_task_complete (last (events tr))
     \<and> length (filter is_task_complete (events tr)) = 1"
proof -
  have "map_option (\<lambda>r. map (\<lambda>e. (progress_percent e, is_task_complete e)) (events (fst r)))
          (stream example_agent (example_world (Inl (PyExn ''ServerError'' ''503''))) ''a cat'' ''t1'')
        = Some [(0, False), (5, False), (25, False), (100, True)]"
    by code_simp
  then obtain tr fs where
    run: "stream example_agent (example_world (Inl (PyExn ''ServerError'' ''503''))) ''a cat'' ''t1''
            = Some (tr, fs)" and
    evs: "map (\<lambda>e. (progress_percent e, is_task_complete e)) (events tr)
            = [(0, False), (5, False), (25, False), (100, True)]"
    by auto
  from evs have "map progress_percent (events tr) = map fst [(0::int, False), (5, False), (25, False), (100, True)]"
     "map is_task_complete (events tr) = map snd [(0::int, False), (5, False), (25, False), (100, True)]"
    by (metis (no_types, lifting) map_map o_def fst_conv snd_conv map_eq_conv)+
  with exactly_one_terminal_event_last[OF run] run show ?thesis by auto
qed


subsection \<open>Progress never goes back\<close>

text \<open>
  C2. In every run that ends, the first dictionary is not terminal and carries
  \<^verbatim>\<open>progress_percent\<close> 0; along the dictionaries that are not terminal the percentage
  never decreases; every terminal dictionary carries 100. The clock is
  \<^verbatim>\<open>time.monotonic()\<close>, whose readings never decrease.
\<close>

theorem progress_non_decreasing:
  assumes "stream A W prompt session_id = Some (tr, fs)"
    and "\<And>i. monotonic W i \<le> monotonic W (Suc i)"
  shows "events tr \<noteq> []
       \<and> \<not> is_task_complete (hd (events tr))
       \<and> progress_percent (hd (events tr)) = 0
       \<and> sorted (map progress_percent (filter (\<lambda>e. \<not> is_task_complete e) (events tr)))
       \<and> list_all (\<lambda>e. is_task_complete e \<longrightarrow> progress_percent e = 100) (events tr)"
proof -
  let ?F = "\<lambda>i. spec_estimate (monotonic W (Suc i) - monotonic W 0)
                  (VEO_SIMULATED_TOTAL_GENERATION_TIME_SECONDS A)"
  from stream_shape[OF assms(1)] obtain started polled t where
    sh: "events tr = progress_update (received_msg prompt) 0 # started @ polled @ [t]"
        "started = [] \<and> polled = [] \<or> (\<exists>nm. started = [progress_update (started_msg nm) 5])"
        "list_all (\<lambda>e. \<exists>nm p. e = progress_update (in_progress_msg nm p) p) polled"
        "map progress_percent polled = map ?F [0..<length polled]"
        "is_task_complete t" "progress_percent t = 100"
    by blast
  have head: "events tr \<noteq> [] \<and> \<not> is_task_complete (hd (events tr))
                \<and> progress_percent (hd (events tr)) = 0"
    using sh(1) by (simp add: progress_update_def)
  have st: "filter (\<lambda>e. \<not> is_task_complete e) started = started"
           "list_all (\<lambda>e. progress_percent e = 5) started"
           "list_all (\<lambda>e. \<not> is_task_complete e) started"
    using sh(2) by (auto simp: progress_update_def)
  have nonterm: "filter (\<lambda>e. \<not> is_task_complete e) (events tr)
                   = progress_update (received_msg prompt) 0 # started @ polled"
    using sh(1,5) st(1) filter_terminal_polled(2)[OF sh(3)] by (simp add: progress_update_def)
  have sp: "sorted (map progress_percent polled)"
    using sorted_estimates[OF assms(2)] sh(4) by simp
  have lower: "\<forall>p \<in> set (map progress_percent polled). 5 \<le> p"
    using sh(4) spec_estimate_range by auto
  have "sorted (map progress_percent started @ map progress_percent polled)"
    using sp lower st(2) sh(2) by (auto simp: sorted_append list_all_iff)
  moreover have "\<forall>p \<in> set (map progress_percent started @ map progress_percent polled). 0 \<le> p"
    using lower st(2) by (auto simp: list_all_iff)
  ultimately have sorted: "sorted (map progress_percent
                      (filter (\<lambda>e. \<not> is_task_complete e) (events tr)))"
    using nonterm by (simp add: progress_update_def)
  have "list_all (\<lambda>e. \<not> is_task_complete e) polled"
    using sh(3) by (auto simp: list_all_iff progress_update_def)
  then have hundred: "list_all (\<lambda>e. is_task_complete e \<longrightarrow> progress_percent e = 100) (events tr)"
    using sh(1,6) st(3) by (auto simp: list_all_iff progress_update_def)
  from head sorted hundred show ?thesis by blast
qed

theorem progress_non_decreasing_witness:
  "\<exists>tr fs. stream example_agent (example_world (Inr (finished None (Some one_video))))
                ''a cat'' ''t1'' = Some (tr, fs)
     \<and> (\<forall>i. monotonic (example_world (Inr (finished None (Some one_video)))) i
               \<le> monotonic (example_world (Inr (finished None (Some one_video)))) (Suc i))
     \<and> map progress_percent (events tr) = [0, 5, 25, 50, 100]
     \<and> progress_percent (hd (events tr)) = 0
     \<and> sorted (map progress_percent (filter (\<lambda>e. \<not> is_task_complete e) (events tr)))"
proof -
  let ?W = "example_world (Inr (finished None (Some one_video)))"
  have "map_option (\<lambda>r. map progress_percent (events (fst r)))
          (stream example_agent ?W ''a cat'' ''t1'') = Some [0, 5, 25, 50, 100]"
    by code_simp
  then obtain tr fs where
    run: "stream example_agent ?W ''a cat'' ''t1'' = Some (tr, fs)" and
    evs: "map progress_percent (events tr) = [0, 5, 25, 50, 100]"
    by auto
  have clock: "\<And>i. monotonic ?W i \<le> monotonic ?W (Suc i)"
    by (simp add: example_world_def)
  from progress_non_decreasing[OF run clock] have
    "progress_percent (hd (events tr)) = 0
     \<and> sorted (map progress_percent (filter (\<lambda>e. \<not> is_task_complete e) (events tr)))"
    by simp
  with run evs clock show ?thesis
    by (intro exI[of _ tr] exI[of _ fs]) simp
qed

subsection \<open>The progress estimate\<close>

text \<open>
  C7. In every run that ends, the dictionaries are: the first (0 percent), then the one
  that reports the start (5 percent) unless the start call raised, then those the polling
  loop yields, then the terminal one. The \<open>i\<close>-th dictionary of the polling loop carries
  \<^verbatim>\<open>max(5, min(floor(elapsed / total * 100), 99))\<close> for the time elapsed at that poll, which
  lies between 5 and 99, and is not terminal; a dictionary that carries 100 is terminal.
\<close>

theorem progress_estimate_bounds:
  assumes "stream A W prompt session_id = Some (tr, fs)"
  shows "\<exists>started polled t.
           events tr = progress_update (received_msg prompt) 0 # started @ polled @ [t]
         \<and> (started = [] \<and> polled = []
            \<or> (\<exists>nm. started = [progress_update (started_msg nm) 5]))
         \<and> list_all (\<lambda>e. \<exists>nm p. e = progress_update (in_progress_msg nm p) p) polled
         \<and> map progress_percent polled
             = map (\<lambda>i. max 5 (min \<lfloor>(monotonic W (Suc i) - monotonic W 0)
                            / real_of_int (VEO_SIMULATED_TOTAL_GENERATION_TIME_SECONDS A) * 100\<rfloor> 99))
                 [0..<length polled]
         \<and> list_all (\<lambda>e. \<not> is_task_complete e \<and> 5 \<le> progress_percent e
                          \<and> progress_percent e \<le> 99) polled
         \<and> is_task_complete t \<and> progress_percent t = 100
         \<and> list_all (\<lambda>e. progress_percent e = 100 \<longrightarrow> is_task_complete e) (events tr)"
proof -
  let ?F = "\<lambda>i. spec_estimate (monotonic W (Suc i) - monotonic W 0)
                  (VEO_SIMULATED_TOTAL_GENERATION_TIME_SECONDS A)"
  from stream_shape[OF assms(1)] obtain started polled t where
    sh: "events tr = progress_update (received_msg prompt) 0 # started @ polled @ [t]"
        "started = [] \<and> polled = [] \<or> (\<exists>nm. started = [progress_update (started_msg nm) 5])"
        "list_all (\<lambda>e. \<exists>nm p. e = progress_update (in_progress_msg nm p) p) polled"
        "map progress_percent polled = map ?F [0..<length polled]"
        "is_task_complete t" "progress_percent t = 100"
    by blast
  have formula: "map progress_percent polled
             = map (\<lambda>i. max 5 (min \<lfloor>(monotonic W (Suc i) - monotonic W 0)
                            / real_of_int (VEO_SIMULATED_TOTAL_GENERATION_TIME_SECONDS A) * 100\<rfloor> 99))
                 [0..<length polled]"
    using sh(4) by (simp add: spec_estimate_def)
  have "\<forall>p \<in> set (map progress_percent polled). 5 \<le> p \<and> p \<le> 99"
    using sh(4) spec_estimate_range by auto
  then have range: "list_all (\<lambda>e. \<not> is_task_complete e \<and> 5 \<le> progress_percent e
                          \<and> progress_percent e \<le> 99) polled"
    using sh(3) by (auto simp: list_all_iff progress_update_def)
  have "list_all (\<lambda>e. progress_percent e \<noteq> 100) started"
    using sh(2) by (auto simp: progress_update_def)
  with range have only: "list_all (\<lambda>e. progress_percent e = 100 \<longrightarrow> is_task_complete e) (events tr)"
    using sh(1,5) by (auto simp: list_all_iff progress_update_def)
  from sh(1,2,3,5,6) formula range only show ?thesis by blast
qed

theorem progress_estimate_bounds_witness:
  "\<exists>tr fs. stream example_agent (example_world (Inr (finished None None))) ''a cat'' ''t1''
              = Some (tr, fs)
     \<and> map progress_percent (events tr) = [0, 5, 25, 50, 100]
     \<and> list_all (\<lambda>e. progress_percent e = 100 \<longrightarrow> is_task_complete e) (events tr)"
proof -
  let ?W = "example_world (Inr (finished None None))"
  have "map_option (\<lambda>r. map progress_percent (events (fst r)))
          (stream example_agent ?W ''a cat'' ''t1'') = Some [0, 5, 25, 50, 100]"
    by code_simp
  then obtain tr fs where
    run: "stream example_agent ?W ''a cat'' ''t1'' = Some (tr, fs)" and
    evs: "map progress_percent (events tr) = [0, 5, 25, 50, 100]"
    by auto
  from progress_estimate_bounds[OF run] have
    "list_all (\<lambda>e. progress_percent e = 100 \<longrightarrow> is_task_complete e) (events tr)"
    by (elim exE conjE)
  with run evs show ?thesis
    by (intro exI[of _ tr] exI[of _ fs]) simp
qed

subsection \<open>A poll that answers no operation\<close>

lemma polls_append [simp]: "polls (xs @ ys) = polls xs @ polls ys"
  by (induction xs rule: polls.induct) auto

lemma current_progress_total:
  "VEO_SIMULATED_TOTAL_GENERATION_TIME_SECONDS A \<noteq> 0
   \<Longrightarrow> \<exists>p. current_progress A e = Inr p"
  by (simp add: current_progress_def Let_def)

lemma loop_violation:
  assumes "pending W n k"
    and "VEO_SIMULATED_TOTAL_GENERATION_TIME_SECONDS A \<noteq> 0"
    and "op_done op = Has False"
    and "operations_get W (n + k) = Inr pd"
    and "op_done pd = Missing \<or> op_name pd = Missing"
  shows "\<exists>ltr nm. polling_loop A W sid n op rep
             = Some (ltr @ [Call (Sleep (VEO_POLLING_INTERVAL_SECONDS A)),
                            Call (OperationsGet (n + k)),
                            Yield (polling_issue (unexpected_msg sid nm pd))], Return)
           \<and> polls ltr = [n..<n + k]"
  using assms(1,3,4)
proof (induction k arbitrary: n op rep)
  case 0
  then have "polling_loop A W sid n op rep
      = Some ([] @ [Call (Sleep (VEO_POLLING_INTERVAL_SECONDS A)), Call (OperationsGet (n + 0)),
               Yield (polling_issue (unexpected_msg sid rep pd))], Return)"
    using assms(5) by (subst polling_loop.simps) auto
  then show ?case by (intro exI[of _ "[]"] exI[of _ rep]) simp
next
  case (Suc k)
  from Suc.prems(1) obtain pd0 where
    pd0: "operations_get W n = Inr pd0" "op_done pd0 = Has False" "op_name pd0 \<noteq> Missing"
         "pending W (Suc n) k"
    by (auto split: sum.splits)
  from current_progress_total[OF assms(2)] obtain p where
    p: "current_progress A (monotonic W (Suc n) - monotonic W 0) = Inr p" by blast
  from Suc.prems(3) have "operations_get W (Suc n + k) = Inr pd" by simp
  from Suc.IH[OF pd0(4) pd0(2) this, of "polled_name pd0 rep"] obtain ltr nm where
    ih: "polling_loop A W sid (Suc n) pd0 (polled_name pd0 rep)
           = Some (ltr @ [Call (Sleep (VEO_POLLING_INTERVAL_SECONDS A)),
                          Call (OperationsGet (Suc n + k)),
                          Yield (polling_issue (unexpected_msg sid nm pd))], Return)"
        "polls ltr = [Suc n..<Suc n + k]"
    by blast
  let ?it = "[Call (Sleep (VEO_POLLING_INTERVAL_SECONDS A)), Call (OperationsGet n),
              Yield (progress_update (in_progress_msg (polled_name pd0 rep) p) p)]"
  have "polling_loop A W sid n op rep
      = Some ((?it @ ltr) @ [Call (Sleep (VEO_POLLING_INTERVAL_SECONDS A)),
                          Call (OperationsGet (n + Suc k)),
                          Yield (polling_issue (unexpected_msg sid nm pd))], Return)"
    using Suc.prems(2) pd0 p ih(1) by (subst polling_loop.simps) simp
  moreover have "polls (?it @ ltr) = [n..<n + Suc k]"
    using ih(2) by (simp add: upt_conv_Cons del: upt_Suc)
  ultimately show ?case by blast
qed

text \<open>
  C10. The operation starts and is not done; its start response may lack the name
  attribute, in which case the name reported is \<^verbatim>\<open>N/A\<close> and polling goes on. The first
  \<open>k\<close> polls find it running. If the next poll answers a value that has
  \<^verbatim>\<open>done\<close> but no \<^verbatim>\<open>name\<close>, the run ends there: the last thing the generator does is
  to yield the terminal dictionary of line 230, the last call it has made is that poll, and
  the polls made are exactly the polls 0 to \<open>k\<close>.
\<close>

theorem poll_without_name_ends_stream:
  assumes "generate_videos W = Inr op0" and "op_done op0 = Has False"
    and "VEO_SIMULATED_TOTAL_GENERATION_TIME_SECONDS A \<noteq> 0"
    and "pending W 0 k"
    and "operations_get W k = Inr pd" and "op_done pd = Has d" and "op_name pd = Missing"
  shows "\<exists>tr nm. stream A W prompt session_id = Some (tr, files W)
           \<and> take 3 tr = [Yield (progress_update (received_msg prompt) 0),
                           Call (GenerateVideos prompt),
                           Yield (progress_update (started_msg (initial_name op0)) 5)]
           \<and> (op_name op0 = Missing \<longrightarrow> initial_name op0 = ''N/A'')
           \<and> polls tr = [0..<Suc k]
           \<and> last tr = Yield (polling_issue (unexpected_msg session_id nm pd))
           \<and> last (calls tr) = OperationsGet k
           \<and> is_task_complete (last (events tr))"
proof -
  from assms(5) have "operations_get W (0 + k) = Inr pd" by simp
  from loop_violation[OF assms(4) assms(3) assms(2) this, of session_id "initial_name op0"] assms(7)
  obtain ltr nm where
    loop: "polling_loop A W session_id 0 op0 (initial_name op0)
             = Some (ltr @ [Call (Sleep (VEO_POLLING_INTERVAL_SECONDS A)),
                            Call (OperationsGet (0 + k)),
                            Yield (polling_issue (unexpected_msg session_id nm pd))], Return)"
          "polls ltr = [0..<0 + k]"
    by blast
  let ?tr = "[Yield (progress_update (received_msg prompt) 0), Call (GenerateVideos prompt),
              Yield (progress_update (started_msg (initial_name op0)) 5)]
             @ (ltr @ [Call (Sleep (VEO_POLLING_INTERVAL_SECONDS A)),
                            Call (OperationsGet (0 + k)),
                            Yield (polling_issue (unexpected_msg session_id nm pd))])"
  have run: "stream A W prompt session_id = Some (?tr, files W)"
    using stream_finished[OF assms(1) loop(1)] by (simp add: after_loop_def)
  have "polls ?tr = [0..<Suc k]" using loop(2) by simp
  moreover have "last ?tr = Yield (polling_issue (unexpected_msg session_id nm pd))" by simp
  moreover have "last (calls ?tr) = OperationsGet k" by simp
  moreover have "is_task_complete (last (events ?tr))" by (simp add: polling_issue_def)
  moreover have "op_name op0 = Missing \<longrightarrow> initial_name op0 = ''N/A''"
    by (simp add: initial_name_def)
  moreover have "take 3 ?tr = [Yield (progress_update (received_msg prompt) 0),
                           Call (GenerateVideos prompt),
                           Yield (progress_update (started_msg (initial_name op0)) 5)]"
    by simp
  ultimately show ?thesis using run by blast
qed


theorem poll_without_name_witness:
  "generate_videos (example_world (Inr nameless)) = Inr (running Missing)
   \<and> op_name (running Missing) = Missing
   \<and> pending (example_world (Inr nameless)) 0 1
   \<and> operations_get (example_world (Inr nameless)) 1 = Inr nameless
   \<and> op_done nameless = Has True \<and> op_name nameless = Missing
   \<and> (\<exists>tr nm. stream example_agent (example_world (Inr nameless)) ''a cat'' ''t1''
                   = Some (tr, files (example_world (Inr nameless)))
          \<and> take 3 tr = [Yield (progress_update (received_msg ''a cat'') 0),
                          Call (GenerateVideos ''a cat''),
                          Yield (progress_update (started_msg ''N/A'') 5)]
          \<and> polls tr = [0, 1]
          \<and> last tr = Yield (polling_issue (unexpected_msg ''t1'' nm nameless)))"
proof -
  let ?W = "example_world (Inr nameless)"
  have h1: "generate_videos ?W = Inr (running Missing)" by (simp add: example_world_def)
  have h2: "op_done (running Missing) = Has False" by (simp add: running_def)
  have h3: "VEO_SIMULATED_TOTAL_GENERATION_TIME_SECONDS example_agent \<noteq> 0"
    by (simp add: example_agent_def)
  have h4: "pending ?W 0 1" by (simp add: example_world_def running_def)
  have h5: "operations_get ?W 1 = Inr nameless" by (simp add: example_world_def)
  have h6: "op_done nameless = Has True" by (simp add: nameless_def)
  have h7: "op_name nameless = Missing" by (simp add: nameless_def)
  have n: "op_name (running Missing) = Missing" by (simp add: running_def)
  from poll_without_name_ends_stream[OF h1 h2 h3 h4 h5 h6 h7, of "''a cat''" "''t1''"] n
  obtain tr nm where
    "stream example_agent ?W ''a cat'' ''t1'' = Some (tr, files ?W)"
    "take 3 tr = [Yield (progress_update (received_msg ''a cat'') 0),
                  Call (GenerateVideos ''a cat''),
                  Yield (progress_update (started_msg ''N/A'') 5)]"
    "polls tr = [0, 1]"
    "last tr = Yield (polling_issue (unexpected_msg ''t1'' nm nameless))"
    by (auto simp: upt_conv_Cons)
  with h1 n h4 h5 h6 h7 show ?thesis by blast
qed

text \<open>
  C3, at a poll that answers a value with neither \<^verbatim>\<open>done\<close> nor \<^verbatim>\<open>name\<close> (here the second
  poll): the run ends with that poll and a terminal dictionary, but the dictionary has no
  \<^verbatim>\<open>is_error\<close> key.
\<close>

theorem polling_issue_without_is_error:
  "map_option
     (\<lambda>r. (polls (fst r), map is_task_complete (events (fst r)),
           is_error (last (events (fst r))), final_message_text (last (events (fst r)))))
     (stream example_agent (example_world (Inr junk)) ''a cat'' ''t1'')
   = Some ([0, 1], [False, False, False, True], None,
           Some ''Video generation polling encountered an API issue.'')"
  by code_simp

subsection \<open>After the loop: failure, empty result, upload and signing\<close>

lemma uuid_str_no_slash: "uuid_str u \<Longrightarrow> CHR ''/'' \<notin> set u"
  by (auto simp: uuid_str_def list_all_iff)

lemma calls_handled [simp]: "calls (fst (handled sid ctx out)) = calls (fst out)"
  by (simp add: handled_def split: option.splits)

lemma finalize_video_calls:
  "calls (fst (finalize_video A W prompt sid g)) = []
   \<or> (\<exists>v vb. video g = Some v \<and> video_bytes v = Some vb \<and> vb \<noteq> []
         \<and> (calls (fst (finalize_video A W prompt sid g))
               = [UploadBytesToGcs vb (gcs_bucket_name A)
                    (gcs_blob_name sid (uuid4 W) (mime_or_default v)) (mime_or_default v)]
            \<or> (\<exists>bl. calls (fst (finalize_video A W prompt sid g))
               = [UploadBytesToGcs vb (gcs_bucket_name A)
                    (gcs_blob_name sid (uuid4 W) (mime_or_default v)) (mime_or_default v),
                  GenerateSignedUrl bl (gcs_bucket_name A) (SIGNED_URL_EXPIRATION_SECONDS A)])))"
  by (simp add: finalize_video_def sign_and_report_def Let_def split: option.splits sum.splits)

lemma calls_no_video [simp]: "calls (fst (no_video W resp)) = []"
  by (simp add: no_video_def split: option.splits attr.splits)

lemma after_polling_calls:
  "calls (fst (after_polling A W prompt sid op)) = []
   \<or> (\<exists>resp g v vb. op_error op = Has None \<and> op_response op = Has resp
         \<and> first_video resp = Some g \<and> video g = Some v \<and> video_bytes v = Some vb \<and> vb \<noteq> []
         \<and> (calls (fst (after_polling A W prompt sid op))
               = [UploadBytesToGcs vb (gcs_bucket_name A)
                    (gcs_blob_name sid (uuid4 W) (mime_or_default v)) (mime_or_default v)]
            \<or> (\<exists>bl. calls (fst (after_polling A W prompt sid op))
               = [UploadBytesToGcs vb (gcs_bucket_name A)
                    (gcs_blob_name sid (uuid4 W) (mime_or_default v)) (mime_or_default v),
                  GenerateSignedUrl bl (gcs_bucket_name A) (SIGNED_URL_EXPIRATION_SECONDS A)])))"
proof (cases "\<exists>resp g. op_name op \<noteq> Missing \<and> op_error op = Has None
                \<and> op_response op = Has resp \<and> first_video resp = Some g")
  case True
  then obtain resp g nm where
    h: "op_name op = Has nm" "op_error op = Has None" "op_response op = Has resp"
       "first_video resp = Some g"
    by (cases "op_name op") auto
  then have "after_polling A W prompt sid op = finalize_video A W prompt sid g"
    by (simp add: after_polling_def)
  with finalize_video_calls[of A W prompt sid g] h show ?thesis by auto
next
  case False
  then have "calls (fst (after_polling A W prompt sid op)) = []"
    by (auto simp: after_polling_def Let_def split: attr.splits option.splits)
  then show ?thesis by simp
qed

lemma after_polling_error:
  assumes "op_name op \<noteq> Missing" "op_error op = Has (Some err)"
  shows "after_polling A W prompt sid op
           = ([Yield (error_result
                 (''VEO video generation failed: ''
                    @ (case message err of Has m \<Rightarrow> m | Missing \<Rightarrow> error_str err))
                 (''VEO video generation failed: ''
                    @ (case message err of Has m \<Rightarrow> m | Missing \<Rightarrow> error_str err)))],
              files W, None)"
  using assms by (cases "op_name op") (simp_all add: after_polling_def Let_def)

lemma after_polling_no_video:
  assumes "op_name op \<noteq> Missing" "op_error op = Has None" "op_response op = Has resp"
    "first_video resp = None"
  shows "after_polling A W prompt sid op = no_video W resp"
  using assms by (cases "op_name op") (simp_all add: after_polling_def)

lemma after_polling_video:
  assumes "op_name op \<noteq> Missing" "op_error op = Has None" "op_response op = Has resp"
    "first_video resp = Some g"
  shows "after_polling A W prompt sid op = finalize_video A W prompt sid g"
  using assms by (cases "op_name op") (simp_all add: after_polling_def)

lemma stream_calls:
  assumes "stream A W prompt sid = Some (tr, fs)"
  shows "filter is_finalizer_call (calls tr) = []
       \<or> (\<exists>op0 ltr op rep. generate_videos W = Inr op0
             \<and> polling_loop A W sid 0 op0 (initial_name op0) = Some (ltr, Break op rep)
             \<and> op_done op = Has True
             \<and> filter is_finalizer_call (calls tr) = calls (fst (after_polling A W prompt sid op)))"
proof (cases "generate_videos W")
  case (Inl e)
  with assms show ?thesis by (auto simp: stream_def)
next
  case (Inr op0)
  from stream_started[OF assms Inr] obtain ltr ex where
    loop: "polling_loop A W sid 0 op0 (initial_name op0) = Some (ltr, ex)" and
    tr: "tr = [Yield (progress_update (received_msg prompt) 0), Call (GenerateVideos prompt),
               Yield (progress_update (started_msg (initial_name op0)) 5)]
              @ ltr @ fst (after_loop A W prompt sid ex)"
    by blast
  from loop_calls[OF loop] have lc: "filter is_finalizer_call (calls ltr) = []" by simp
  show ?thesis
  proof (cases ex)
    case (Break op rep)
    from loop_break[OF loop, of op rep] Break have d: "op_done op = Has True" by simp
    have "filter is_finalizer_call (calls (fst (after_polling A W prompt sid op)))
            = calls (fst (after_polling A W prompt sid op))"
      using after_polling_calls[of A W prompt sid op] by auto
    with tr lc Break have
      "filter is_finalizer_call (calls tr) = calls (fst (after_polling A W prompt sid op))"
      by (simp add: after_loop_def)
    with Inr loop Break d show ?thesis by blast
  next
    case Return
    with tr lc show ?thesis by (simp add: after_loop_def)
  next
    case (Raise e rep)
    with tr lc show ?thesis by (simp add: after_loop_def)
  qed
qed


text \<open>
  C5. In every run that ends: if the loop is left by \<^verbatim>\<open>break\<close> with an operation whose
  \<^verbatim>\<open>error\<close> is set, the last dictionary is the failure that carries the backend's error text
  (its \<^verbatim>\<open>message\<close>, or its string form without one), and neither \<^verbatim>\<open>_upload_bytes_to_gcs\<close>
  nor \<^verbatim>\<open>_generate_signed_url\<close> is called. In general the calls of the two are none, or
  one upload, or one upload followed by one signing; and when there is any, the loop was
  left with an operation that is done, whose error is None and whose first generated video
  holds the non-empty bytes that were uploaded. The operation left by \<^verbatim>\<open>break\<close> is taken
  to have a name attribute, as every polled operation has.
\<close>

theorem finalizer_only_after_success:
  assumes "stream A W prompt session_id = Some (tr, fs)"
  shows "(\<forall>op0 ltr op rep err.
            generate_videos W = Inr op0
          \<and> polling_loop A W session_id 0 op0 (initial_name op0) = Some (ltr, Break op rep)
          \<and> op_name op \<noteq> Missing \<and> op_error op = Has (Some err)
          \<longrightarrow> last (events tr)
                = error_result
                    (''VEO video generation failed: ''
                       @ (case message err of Has m \<Rightarrow> m | Missing \<Rightarrow> error_str err))
                    (''VEO video generation failed: ''
                       @ (case message err of Has m \<Rightarrow> m | Missing \<Rightarrow> error_str err))
              \<and> is_error (last (events tr)) = Some True
              \<and> filter is_finalizer_call (calls tr) = [])
       \<and> (filter is_finalizer_call (calls tr) = []
          \<or> (\<exists>op0 ltr op rep resp g v vb.
                generate_videos W = Inr op0
              \<and> polling_loop A W session_id 0 op0 (initial_name op0) = Some (ltr, Break op rep)
              \<and> op_done op = Has True \<and> op_error op = Has None \<and> op_response op = Has resp
              \<and> first_video resp = Some g \<and> video g = Some v \<and> video_bytes v = Some vb
              \<and> vb \<noteq> []
              \<and> (filter is_finalizer_call (calls tr)
                    = [UploadBytesToGcs vb (gcs_bucket_name A)
                         (gcs_blob_name session_id (uuid4 W) (mime_or_default v))
                         (mime_or_default v)]
                 \<or> (\<exists>bl. filter is_finalizer_call (calls tr)
                    = [UploadBytesToGcs vb (gcs_bucket_name A)
                         (gcs_blob_name session_id (uuid4 W) (mime_or_default v))
                         (mime_or_default v),
                       GenerateSignedUrl bl (gcs_bucket_name A)
                         (SIGNED_URL_EXPIRATION_SECONDS A)]))))"
proof -
  have failed: "\<forall>op0 ltr op rep err.
            generate_videos W = Inr op0
          \<and> polling_loop A W session_id 0 op0 (initial_name op0) = Some (ltr, Break op rep)
          \<and> op_name op \<noteq> Missing \<and> op_error op = Has (Some err)
          \<longrightarrow> last (events tr)
                = error_result
                    (''VEO video generation failed: ''
                       @ (case message err of Has m \<Rightarrow> m | Missing \<Rightarrow> error_str err))
                    (''VEO video generation failed: ''
                       @ (case message err of Has m \<Rightarrow> m | Missing \<Rightarrow> error_str err))
              \<and> is_error (last (events tr)) = Some True
              \<and> filter is_finalizer_call (calls tr) = []"
  proof (intro allI impI, elim conjE)
    fix op0 ltr op rep err
    assume h: "generate_videos W = Inr op0"
      "polling_loop A W session_id 0 op0 (initial_name op0) = Some (ltr, Break op rep)"
      "op_name op \<noteq> Missing" "op_error op = Has (Some err)"
    let ?m = "''VEO video generation failed: ''
                @ (case message err of Has m \<Rightarrow> m | Missing \<Rightarrow> error_str err)"
    have "tr = [Yield (progress_update (received_msg prompt) 0), Call (GenerateVideos prompt),
                Yield (progress_update (started_msg (initial_name op0)) 5)]
               @ ltr @ [Yield (error_result ?m ?m)]"
      using assms stream_finished[OF h(1,2), of prompt] after_polling_error[OF h(3,4), of A W prompt session_id]
      by (simp add: after_loop_def handled_def)
    then show "last (events tr) = error_result ?m ?m
              \<and> is_error (last (events tr)) = Some True
              \<and> filter is_finalizer_call (calls tr) = []"
      using loop_calls[OF h(2)] by (simp add: error_result_def)
  qed
  from stream_calls[OF assms] have "filter is_finalizer_call (calls tr) = []
          \<or> (\<exists>op0 ltr op rep resp g v vb.
                generate_videos W = Inr op0
              \<and> polling_loop A W session_id 0 op0 (initial_name op0) = Some (ltr, Break op rep)
              \<and> op_done op = Has True \<and> op_error op = Has None \<and> op_response op = Has resp
              \<and> first_video resp = Some g \<and> video g = Some v \<and> video_bytes v = Some vb
              \<and> vb \<noteq> []
              \<and> (filter is_finalizer_call (calls tr)
                    = [UploadBytesToGcs vb (gcs_bucket_name A)
                         (gcs_blob_name session_id (uuid4 W) (mime_or_default v))
                         (mime_or_default v)]
                 \<or> (\<exists>bl. filter is_finalizer_call (calls tr)
                    = [UploadBytesToGcs vb (gcs_bucket_name A)
                         (gcs_blob_name session_id (uuid4 W) (mime_or_default v))
                         (mime_or_default v),
                       GenerateSignedUrl bl (gcs_bucket_name A)
                         (SIGNED_URL_EXPIRATION_SECONDS A)])))"
  proof (elim disjE exE conjE)
    assume "filter is_finalizer_call (calls tr) = []"
    then show ?thesis by simp
  next
    fix op0 ltr op rep
    assume h: "generate_videos W = Inr op0"
      "polling_loop A W session_id 0 op0 (initial_name op0) = Some (ltr, Break op rep)"
      "op_done op = Has True"
      "filter is_finalizer_call (calls tr) = calls (fst (after_polling A W prompt session_id op))"
    from after_polling_calls[of A W prompt session_id op] consider
      (none) "calls (fst (after_polling A W prompt session_id op)) = []"
    | (some) resp g v vb where
        "op_error op = Has None" "op_response op = Has resp" "first_video resp = Some g"
        "video g = Some v" "video_bytes v = Some vb" "vb \<noteq> []"
        "calls (fst (after_polling A W prompt session_id op))
           = [UploadBytesToGcs vb (gcs_bucket_name A)
                (gcs_blob_name session_id (uuid4 W) (mime_or_default v)) (mime_or_default v)]
         \<or> (\<exists>bl. calls (fst (after_polling A W prompt session_id op))
           = [UploadBytesToGcs vb (gcs_bucket_name A)
                (gcs_blob_name session_id (uuid4 W) (mime_or_default v)) (mime_or_default v),
              GenerateSignedUrl bl (gcs_bucket_name A) (SIGNED_URL_EXPIRATION_SECONDS A)])"
      by blast
    then show ?thesis
    proof cases
      case none
      with h(4) show ?thesis by simp
    next
      case some
      with h show ?thesis
        by (intro disjI2 exI[of _ op0] exI[of _ ltr] exI[of _ op] exI[of _ rep]
              exI[of _ resp] exI[of _ g] exI[of _ v] exI[of _ vb]) simp
    qed
  qed
  with failed show ?thesis by blast
qed

theorem finalizer_only_after_success_witness:
  "\<exists>tr fs. stream example_agent (example_world (Inr (finished (Some quota_error) (Some one_video))))
               ''a cat'' ''t1'' = Some (tr, fs)
     \<and> content (last (events tr)) = Some ''VEO video generation failed: quota exceeded''
     \<and> is_error (last (events tr)) = Some True
     \<and> filter is_finalizer_call (calls tr) = []"
proof -
  let ?fin = "finished (Some quota_error) (Some one_video)"
  let ?W = "example_world (Inr ?fin)"
  have "map_option snd (polling_loop example_agent ?W ''t1'' 0 (running Missing) ''N/A'')
          = Some (Break ?fin ''operations/1'')"
    by code_simp
  then obtain ltr where
    loop: "polling_loop example_agent ?W ''t1'' 0 (running Missing) (initial_name (running Missing))
             = Some (ltr, Break ?fin ''operations/1'')"
    by (auto simp: initial_name_def running_def)
  have start: "generate_videos ?W = Inr (running Missing)" by (simp add: example_world_def)
  from stream_finished[OF start loop, of "''a cat''"] obtain tr fs where
    run: "stream example_agent ?W ''a cat'' ''t1'' = Some (tr, fs)" by blast
  have err: "op_name ?fin \<noteq> Missing" "op_error ?fin = Has (Some quota_error)"
    by (simp_all add: finished_def)
  from finalizer_only_after_success[OF run] start loop err have
    "last (events tr)
       = error_result
           (''VEO video generation failed: ''
              @ (case message quota_error of Has m \<Rightarrow> m | Missing \<Rightarrow> error_str quota_error))
           (''VEO video generation failed: ''
              @ (case message quota_error of Has m \<Rightarrow> m | Missing \<Rightarrow> error_str quota_error))
     \<and> is_error (last (events tr)) = Some True
     \<and> filter is_finalizer_call (calls tr) = []"
    by blast
  then have "content (last (events tr)) = Some ''VEO video generation failed: quota exceeded''
     \<and> is_error (last (events tr)) = Some True
     \<and> filter is_finalizer_call (calls tr) = []"
    by (simp add: error_result_def quota_error_def)
  with run show ?thesis by blast
qed


lemma no_payload_handled:
  assumes "op_name op \<noteq> Missing" "op_error op = Has None" "op_response op = Has resp"
    "payload resp = None"
  shows "\<exists>c f. handled sid ctx (after_polling A W prompt sid op)
                 = ([Yield (error_result c f)], files W)"
proof (cases "first_video resp")
  case None
  with assms(1-3) have "after_polling A W prompt sid op = no_video W resp"
    by (rule after_polling_no_video)
  then show ?thesis
    by (auto simp: no_video_def handled_def exception_result_def
             split: option.splits attr.splits)
next
  case (Some g)
  with assms(1-3) have "after_polling A W prompt sid op = finalize_video A W prompt sid g"
    by (rule after_polling_video)
  then show ?thesis
    using assms(4) Some
    by (auto simp: finalize_video_def payload_def handled_def exception_result_def Let_def
             split: option.splits if_splits)
qed

lemma no_bytes_handled:
  assumes "op_name op \<noteq> Missing" "op_error op = Has None" "op_response op = Has resp"
    "payload resp = None" "first_video resp = Some g" "video g = Some v"
  shows "handled sid ctx (after_polling A W prompt sid op)
           = ([Yield (error_result ''VEO response video_obj has no video_bytes, cannot proceed.''
                        ''Video processing failed due to missing video byte data.'')], files W)"
proof -
  from assms(1,2,3,5) have "after_polling A W prompt sid op = finalize_video A W prompt sid g"
    by (rule after_polling_video)
  then show ?thesis
    using assms(4,5,6)
    by (auto simp: finalize_video_def payload_def handled_def Let_def
             split: option.splits if_splits)
qed

lemma blocked_handled:
  assumes "op_name op \<noteq> Missing" "op_error op = Has None" "op_response op = Has (Some r)"
    "first_video (Some r) = None" "rai_media_filtered_count r = Has (Some c)" "0 < c"
    "rai_media_filtered_reasons r \<noteq> Has None"
  shows "handled sid ctx (after_polling A W prompt sid op)
           = ([Yield (error_result
                 (blocked_msg (case rai_media_filtered_reasons r of
                                 Has (Some rs) \<Rightarrow> rs | _ \<Rightarrow> [''Unknown safety filter.'']))
                 (blocked_msg (case rai_media_filtered_reasons r of
                                 Has (Some rs) \<Rightarrow> rs | _ \<Rightarrow> [''Unknown safety filter.''])))],
              files W)"
proof -
  from assms(1-4) have "after_polling A W prompt sid op = no_video W (Some r)"
    by (rule after_polling_no_video)
  then show ?thesis
    using assms(5,6,7)
    by (auto simp: no_video_def handled_def split: option.splits attr.splits)
qed

lemma generic_handled:
  assumes "op_name op \<noteq> Missing" "op_error op = Has None" "op_response op = Has resp"
    "first_video resp = None"
    "resp = None
     \<or> (\<exists>r. resp = Some r
           \<and> (rai_media_filtered_count r = Missing
              \<or> (\<exists>c. rai_media_filtered_count r = Has (Some c) \<and> c \<le> 0)))"
  shows "handled sid ctx (after_polling A W prompt sid op)
           = ([Yield (error_result no_video_msg no_video_msg)], files W)"
proof -
  from assms(1-4) have "after_polling A W prompt sid op = no_video W resp"
    by (rule after_polling_no_video)
  then show ?thesis
    using assms(5)
    by (auto simp: no_video_def handled_def split: option.splits attr.splits)
qed

text \<open>
  C8, as amended. The loop is left by \<^verbatim>\<open>break\<close> with an operation without error whose
  response holds no payload: no response, no generated video, or a first generated video
  without bytes. Then the run ends with a failure: \<^verbatim>\<open>is_error\<close> is true, there is no
  \<^verbatim>\<open>file_part_data\<close>, nothing is uploaded or signed. When the first generated video is
  there without its bytes, the content is the message that the video bytes are missing,
  whatever the filtered count. When there is no generated video: with a filtered count that
  is a number above 0 (and reasons that are a list, or absent) the content is the
  safety-filter message with the reasons joined by a comma and a space; with no response, no
  count or a count that is a number of at most 0 it is the message that no video was
  returned.
\<close>

theorem empty_result_is_failure:
  assumes "generate_videos W = Inr op0"
    and "polling_loop A W session_id 0 op0 (initial_name op0) = Some (ltr, Break op rep)"
    and "op_name op \<noteq> Missing" and "op_error op = Has None"
    and "op_response op = Has resp" and "payload resp = None"
  shows "\<exists>tr. stream A W prompt session_id = Some (tr, files W)
         \<and> is_task_complete (last (events tr))
         \<and> is_error (last (events tr)) = Some True
         \<and> file_part_data (last (events tr)) = None
         \<and> filter is_finalizer_call (calls tr) = []
         \<and> (\<forall>g v. first_video resp = Some g \<and> video g = Some v \<longrightarrow>
               content (last (events tr))
                 = Some ''VEO response video_obj has no video_bytes, cannot proceed.'')
         \<and> (\<forall>r c. first_video resp = None \<and> resp = Some r
                 \<and> rai_media_filtered_count r = Has (Some c) \<and> 0 < c
                 \<and> rai_media_filtered_reasons r \<noteq> Has None \<longrightarrow>
               content (last (events tr))
                 = Some (''Video generation was blocked by safety filters. Reasons: ''
                           @ join '', '' (case rai_media_filtered_reasons r of
                                            Has (Some rs) \<Rightarrow> rs
                                          | _ \<Rightarrow> [''Unknown safety filter.''])))
         \<and> (first_video resp = None
             \<and> (resp = None
                \<or> (\<exists>r. resp = Some r
                      \<and> (rai_media_filtered_count r = Missing
                         \<or> (\<exists>c. rai_media_filtered_count r = Has (Some c) \<and> c \<le> 0))))
             \<longrightarrow> content (last (events tr)) = Some no_video_msg
               \<and> final_message_text (last (events tr)) = Some no_video_msg)"
proof -
  let ?ctx = "''VEO operation name: '' @ rep"
  let ?h = "handled session_id ?ctx (after_polling A W prompt session_id op)"
  from no_payload_handled[OF assms(3,4,5,6), of session_id ?ctx A W prompt] obtain c f where
    h: "?h = ([Yield (error_result c f)], files W)" by blast
  let ?tr = "[Yield (progress_update (received_msg prompt) 0), Call (GenerateVideos prompt),
              Yield (progress_update (started_msg (initial_name op0)) 5)]
             @ ltr @ [Yield (error_result c f)]"
  have run: "stream A W prompt session_id = Some (?tr, files W)"
    using stream_finished[OF assms(1,2), of prompt] h by (simp add: after_loop_def)
  have last: "last (events ?tr) = error_result c f" by simp
  have nocall: "filter is_finalizer_call (calls ?tr) = []"
    using loop_calls[OF assms(2)] by simp
  have fail: "is_task_complete (error_result c f)" "is_error (error_result c f) = Some True"
    "file_part_data (error_result c f) = None"
    by (simp_all add: error_result_def)
  have bytes: "\<forall>g v. first_video resp = Some g \<and> video g = Some v \<longrightarrow>
               content (error_result c f)
                 = Some ''VEO response video_obj has no video_bytes, cannot proceed.''"
  proof (intro allI impI, elim conjE)
    fix g v assume "first_video resp = Some g" "video g = Some v"
    from no_bytes_handled[OF assms(3,4,5,6) this, of session_id ?ctx A W prompt] h
    show "content (error_result c f)
            = Some ''VEO response video_obj has no video_bytes, cannot proceed.''"
      by (simp add: error_result_def)
  qed
  have blocked: "\<forall>r c'. first_video resp = None \<and> resp = Some r
                 \<and> rai_media_filtered_count r = Has (Some c') \<and> 0 < c'
                 \<and> rai_media_filtered_reasons r \<noteq> Has None \<longrightarrow>
               content (error_result c f)
                 = Some (''Video generation was blocked by safety filters. Reasons: ''
                           @ join '', '' (case rai_media_filtered_reasons r of
                                            Has (Some rs) \<Rightarrow> rs
                                          | _ \<Rightarrow> [''Unknown safety filter.'']))"
  proof (intro allI impI, elim conjE)
    fix r c'
    assume a: "first_video resp = None" "resp = Some r"
      "rai_media_filtered_count r = Has (Some c')" "0 < c'"
      "rai_media_filtered_reasons r \<noteq> Has None"
    from assms(5) a(1,2) have "op_response op = Has (Some r)" "first_video (Some r) = None"
      by simp_all
    from blocked_handled[OF assms(3,4) this a(3,4,5), of session_id ?ctx A W prompt] h
    show "content (error_result c f)
            = Some (''Video generation was blocked by safety filters. Reasons: ''
                      @ join '', '' (case rai_media_filtered_reasons r of
                                       Has (Some rs) \<Rightarrow> rs
                                     | _ \<Rightarrow> [''Unknown safety filter.'']))"
      by (simp add: error_result_def blocked_msg_def)
  qed
  have generic: "first_video resp = None
             \<and> (resp = None
                \<or> (\<exists>r. resp = Some r
                      \<and> (rai_media_filtered_count r = Missing
                         \<or> (\<exists>c. rai_media_filtered_count r = Has (Some c) \<and> c \<le> 0))))
             \<longrightarrow> content (error_result c f) = Some no_video_msg
               \<and> final_message_text (error_result c f) = Some no_video_msg"
  proof (intro impI, elim conjE)
    assume a: "first_video resp = None"
      "resp = None
                \<or> (\<exists>r. resp = Some r
                      \<and> (rai_media_filtered_count r = Missing
                         \<or> (\<exists>c. rai_media_filtered_count r = Has (Some c) \<and> c \<le> 0)))"
    from generic_handled[OF assms(3,4,5) a, of session_id ?ctx A W prompt] h
    show "content (error_result c f) = Some no_video_msg
               \<and> final_message_text (error_result c f) = Some no_video_msg"
      by (simp add: error_result_def)
  qed
  from run last nocall fail bytes blocked generic show ?thesis
    by (intro exI[of _ ?tr]) (simp only: simp_thms)
qed

theorem empty_result_is_failure_witness:
  "\<exists>tr. stream example_agent (example_world (Inr (finished None (Some blocked)))) ''a cat'' ''t1''
          = Some (tr, files (example_world (Inr (finished None (Some blocked)))))
     \<and> payload (Some blocked) = None
     \<and> is_task_complete (last (events tr))
     \<and> is_error (last (events tr)) = Some True
     \<and> file_part_data (last (events tr)) = None
     \<and> content (last (events tr))
         = Some ''Video generation was blocked by safety filters. Reasons: violence, celebrity''"
proof -
  let ?fin = "finished None (Some blocked)"
  let ?W = "example_world (Inr ?fin)"
  have "map_option snd (polling_loop example_agent ?W ''t1'' 0 (running Missing) ''N/A'')
          = Some (Break ?fin ''operations/1'')"
    by code_simp
  then obtain ltr where
    loop: "polling_loop example_agent ?W ''t1'' 0 (running Missing) (initial_name (running Missing))
             = Some (ltr, Break ?fin ''operations/1'')"
    by (auto simp: initial_name_def running_def)
  have start: "generate_videos ?W = Inr (running Missing)" by (simp add: example_world_def)
  have op: "op_name ?fin \<noteq> Missing" "op_error ?fin = Has None"
    "op_response ?fin = Has (Some blocked)"
    by (simp_all add: finished_def)
  have none: "first_video (Some blocked) = None" by (simp add: first_video_def blocked_def)
  have empty: "payload (Some blocked) = None" by (simp add: payload_def none)
  have cnt: "rai_media_filtered_count blocked = Has (Some 2)" "(0::int) < 2"
    "rai_media_filtered_reasons blocked \<noteq> Has None"
    by (simp_all add: blocked_def)
  from empty_result_is_failure[OF start loop op empty, of "''a cat''"] obtain tr where
    tr: "stream example_agent ?W ''a cat'' ''t1'' = Some (tr, files ?W)"
        "is_task_complete (last (events tr))"
        "is_error (last (events tr)) = Some True"
        "file_part_data (last (events tr)) = None"
        "\<forall>r c. first_video (Some blocked) = None \<and> Some blocked = Some r
                 \<and> rai_media_filtered_count r = Has (Some c) \<and> 0 < c
                 \<and> rai_media_filtered_reasons r \<noteq> Has None \<longrightarrow>
               content (last (events tr))
                 = Some (''Video generation was blocked by safety filters. Reasons: ''
                           @ join '', '' (case rai_media_filtered_reasons r of
                                            Has (Some rs) \<Rightarrow> rs
                                          | _ \<Rightarrow> [''Unknown safety filter.'']))"
    by blast
  from tr(5) none cnt have
    "content (last (events tr))
       = Some (''Video generation was blocked by safety filters. Reasons: ''
                 @ join '', '' (case rai_media_filtered_reasons blocked of
                                  Has (Some rs) \<Rightarrow> rs
                                | _ \<Rightarrow> [''Unknown safety filter.'']))"
    by blast
  then have "content (last (events tr))
         = Some ''Video generation was blocked by safety filters. Reasons: violence, celebrity''"
    by (simp add: blocked_def)
  with tr(1-4) empty show ?thesis by blast
qed

text \<open>
  C8 as it was stated fails where the first generated video is listed without its bytes:
  the response holds no payload and its filtered count is 2, yet the failure carries the
  message of line 275, not the joined reasons.
\<close>

theorem empty_result_counterexample:
  "payload (Some no_bytes) = None
   \<and> rai_media_filtered_count no_bytes = Has (Some 2)
   \<and> map_option (\<lambda>r. (is_error (last (events (fst r))), content (last (events (fst r)))))
       (stream example_agent (example_world (Inr (finished None (Some no_bytes))))
          ''a cat'' ''t1'')
     = Some (Some True, Some ''VEO response video_obj has no video_bytes, cannot proceed.'')
   \<and> ''VEO response video_obj has no video_bytes, cannot proceed.''
       \<noteq> ''Video generation was blocked by safety filters. Reasons: violence, celebrity''"
  by code_simp

text \<open>
  A count that is present and \<^verbatim>\<open>None\<close> makes the comparison of line 335 raise: the run
  ends in the handler, with a failure that carries the handler's text.
\<close>

lemma count_none_raises:
  "map_option (\<lambda>r. (is_error (last (events (fst r))),
                    final_message_text (last (events (fst r)))))
     (stream example_agent (example_world (Inr (finished None (Some count_none))))
        ''a cat'' ''t1'')
   = Some (Some True,
           Some (''An unexpected error occurred: '' @ squote @ ''>'' @ squote
                   @ '' not supported between instances of '' @ squote @ ''NoneType'' @ squote
                   @ '' and '' @ squote @ ''int'' @ squote))"
  by code_simp

lemma upload_succeeds:
  assumes "storage_client A" "open_wb W = None" "f_write W = None"
    "blob_upload_from_filename W = None"
  shows "fst (upload_bytes_to_gcs A W fs vb b bl m) = Inr (''gs://'' @ b @ ''/'' @ bl)"
  using assms by (simp add: upload_bytes_to_gcs_def upload_try_def Let_def)

text \<open>
  C4. The loop is left by \<^verbatim>\<open>break\<close> with an operation without error whose first generated
  video has bytes; the storage client is there, writing and uploading succeed, and
  \<^verbatim>\<open>blob.generate_signed_url\<close> raises. Then the run ends with the success dictionary: it is
  terminal, has no \<^verbatim>\<open>is_error\<close> and no \<^verbatim>\<open>content\<close>, and the \<^verbatim>\<open>uri\<close> of its
  \<^verbatim>\<open>file_part_data\<close> is \<^verbatim>\<open>gs://{bucket}/{blob}\<close> for the blob that was uploaded. The task
  id is path-safe (it has no \<^verbatim>\<open>/\<close>, as section 4.1 of the specification requires), and
  the random part has the shape of a UUID.
\<close>

theorem signing_failure_is_degraded_success:
  assumes "generate_videos W = Inr op0"
    and "polling_loop A W session_id 0 op0 (initial_name op0) = Some (ltr, Break op rep)"
    and "op_name op \<noteq> Missing" and "op_error op = Has None"
    and "op_response op = Has resp" and "first_video resp = Some g"
    and "video g = Some v" and "video_bytes v = Some vb" and "vb \<noteq> []"
    and "storage_client A" and "open_wb W = None" and "f_write W = None"
    and "blob_upload_from_filename W = None"
    and "blob_generate_signed_url W = Inl e"
    and "CHR ''/'' \<notin> set session_id" and "uuid_str (uuid4 W)"
  shows "\<exists>tr fs. stream A W prompt session_id = Some (tr, fs)
         \<and> is_task_complete (last (events tr))
         \<and> is_error (last (events tr)) = None
         \<and> content (last (events tr)) = None
         \<and> file_part_data (last (events tr))
             = Some \<lparr>uri = ''gs://'' @ gcs_bucket_name A @ ''/''
                            @ gcs_blob_name session_id (uuid4 W) (mime_or_default v),
                     mimeType = mime_or_default v\<rparr>
         \<and> UploadBytesToGcs vb (gcs_bucket_name A)
              (gcs_blob_name session_id (uuid4 W) (mime_or_default v)) (mime_or_default v)
             \<in> set (calls tr)"
proof -
  let ?mime = "mime_or_default v"
  let ?blob = "gcs_blob_name session_id (uuid4 W) ?mime"
  let ?uri = "''gs://'' @ gcs_bucket_name A @ ''/'' @ ?blob"
  let ?up = "upload_bytes_to_gcs A W (files W) vb (gcs_bucket_name A) ?blob ?mime"
  let ?ok = "success_result ?uri ?mime (split_last ?uri) (artifact_description_of prompt ?uri)
               (completion_message ?uri ?uri)"
  have up: "fst ?up = Inr ?uri" using assms(10-13) by (rule upload_succeeds)
  have "count_list ?blob CHR ''/'' = 1"
    using assms(15) uuid_str_no_slash[OF assms(16)] by (rule count_blob)
  then have strip: "str_replace ?uri (''gs://'' @ gcs_bucket_name A @ ''/'') [] = ?blob"
    by (intro strip_locator) simp
  have sign: "generate_signed_url W ?blob (gcs_bucket_name A) (SIGNED_URL_EXPIRATION_SECONDS A)
                = ?uri"
    using assms(14) by (simp add: generate_signed_url_def)
  have sr: "sign_and_report A W prompt ?mime ?uri
              = [Call (GenerateSignedUrl ?blob (gcs_bucket_name A)
                         (SIGNED_URL_EXPIRATION_SECONDS A)), Yield ?ok]"
    unfolding sign_and_report_def Let_def strip sign by simp
  have fv: "finalize_video A W prompt session_id g
              = (Call (UploadBytesToGcs vb (gcs_bucket_name A) ?blob ?mime)
                   # sign_and_report A W prompt ?mime ?uri, snd ?up, None)"
    using assms(7,8,9) up by (simp add: finalize_video_def Let_def)
  let ?tr = "[Yield (progress_update (received_msg prompt) 0), Call (GenerateVideos prompt),
              Yield (progress_update (started_msg (initial_name op0)) 5)]
             @ ltr @ [Call (UploadBytesToGcs vb (gcs_bucket_name A) ?blob ?mime),
                      Call (GenerateSignedUrl ?blob (gcs_bucket_name A)
                         (SIGNED_URL_EXPIRATION_SECONDS A)), Yield ?ok]"
  have run: "stream A W prompt session_id = Some (?tr, snd ?up)"
    using stream_finished[OF assms(1,2), of prompt]
      after_polling_video[OF assms(3,4,5,6), of A W prompt session_id] fv sr
    by (simp add: after_loop_def handled_def)
  have "last (events ?tr) = ?ok" by simp
  moreover have "is_task_complete ?ok" "is_error ?ok = None" "content ?ok = None"
    "file_part_data ?ok = Some \<lparr>uri = ?uri, mimeType = ?mime\<rparr>"
    by (simp_all add: success_result_def)
  moreover have "UploadBytesToGcs vb (gcs_bucket_name A) ?blob ?mime \<in> set (calls ?tr)"
    by simp
  ultimately show ?thesis using run
    by (intro exI[of _ ?tr] exI[of _ "snd ?up"]) (simp only: simp_thms)
qed

theorem signing_failure_witness:
  "\<exists>tr fs. stream example_agent (example_world (Inr (finished None (Some one_video))))
               ''a cat'' ''t1'' = Some (tr, fs)
     \<and> blob_generate_signed_url (example_world (Inr (finished None (Some one_video))))
         = Inl (PyExn ''TransportError'' ''signing failed'')
     \<and> is_task_complete (last (events tr))
     \<and> is_error (last (events tr)) = None
     \<and> file_part_data (last (events tr))
         = Some \<lparr>uri = ''gs://bucket/t1/veo_video_t1_123e4567-e89b-42d3-a456-426614174000.mp4'',
                 mimeType = ''video/mp4''\<rparr>"
proof -
  let ?fin = "finished None (Some one_video)"
  let ?W = "example_world (Inr ?fin)"
  let ?v = "\<lparr>video_bytes = Some ''fake-mp4'', mime_type = Some ''video/mp4''\<rparr>"
  have "map_option snd (polling_loop example_agent ?W ''t1'' 0 (running Missing) ''N/A'')
          = Some (Break ?fin ''operations/1'')"
    by code_simp
  then obtain ltr where
    loop: "polling_loop example_agent ?W ''t1'' 0 (running Missing) (initial_name (running Missing))
             = Some (ltr, Break ?fin ''operations/1'')"
    by (auto simp: initial_name_def running_def)
  have start: "generate_videos ?W = Inr (running Missing)" by (simp add: example_world_def)
  have op: "op_name ?fin \<noteq> Missing" "op_error ?fin = Has None"
    "op_response ?fin = Has (Some one_video)"
    by (simp_all add: finished_def)
  have vid: "first_video (Some one_video) = Some \<lparr>video = Some ?v\<rparr>"
    "video \<lparr>video = Some ?v\<rparr> = Some ?v" "video_bytes ?v = Some ''fake-mp4''"
    "''fake-mp4'' \<noteq> []"
    by (simp_all add: first_video_def one_video_def)
  have env: "storage_client example_agent" "open_wb ?W = None" "f_write ?W = None"
    "blob_upload_from_filename ?W = None"
    "blob_generate_signed_url ?W = Inl (PyExn ''TransportError'' ''signing failed'')"
    by (simp_all add: example_agent_def example_world_def)
  have ids: "CHR ''/'' \<notin> set ''t1''" "uuid_str (uuid4 ?W)"
    by (simp_all add: example_world_def uuid_str_def)
  from signing_failure_is_degraded_success[OF start loop op vid env ids, of "''a cat''"]
  obtain tr fs where
    tr: "stream example_agent ?W ''a cat'' ''t1'' = Some (tr, fs)"
        "is_task_complete (last (events tr))"
        "is_error (last (events tr)) = None"
        "file_part_data (last (events tr))
             = Some \<lparr>uri = ''gs://'' @ gcs_bucket_name example_agent @ ''/''
                            @ gcs_blob_name ''t1'' (uuid4 ?W) (mime_or_default ?v),
                     mimeType = mime_or_default ?v\<rparr>"
    by blast
  have "''gs://'' @ gcs_bucket_name example_agent @ ''/''
          @ gcs_blob_name ''t1'' (uuid4 ?W) (mime_or_default ?v)
        = ''gs://bucket/t1/veo_video_t1_123e4567-e89b-42d3-a456-426614174000.mp4''"
       "mime_or_default ?v = ''video/mp4''"
    by (simp_all add: example_agent_def example_world_def gcs_blob_name_def video_filename_def
          video_filename_base_def extension_def split_last_def mime_or_default_def)
  with tr env(5) show ?thesis by (intro exI[of _ tr] exI[of _ fs]) simp
qed

subsection \<open>The name of the uploaded object\<close>

lemma same_prefix:
  "s1 @ CHR ''/'' # r1 = s2 @ CHR ''/'' # r2
   \<Longrightarrow> count_list s1 CHR ''/'' = count_list s2 CHR ''/''
   \<Longrightarrow> s1 = s2 \<and> r1 = r2"
proof (induction s1 arbitrary: s2)
  case Nil
  then show ?case by (cases s2) auto
next
  case (Cons c s1)
  show ?case
  proof (cases s2)
    case Nil
    with Cons.prems show ?thesis by auto
  next
    case (Cons d s2')
    with Cons.prems have "c = d" "s1 @ CHR ''/'' # r1 = s2' @ CHR ''/'' # r2"
      "count_list s1 CHR ''/'' = count_list s2' CHR ''/''"
      by (auto split: if_splits)
    with Cons.IH[of s2'] Cons show ?thesis by simp
  qed
qed

lemma drop_suffix: "drop (length (xs @ ys) - length ys) (xs @ ys) = ys"
  by simp

lemma blob_name_injective:
  assumes "uuid_str u1" "uuid_str u2"
    and eq: "gcs_blob_name t1 u1 m1 = gcs_blob_name t2 u2 m2"
  shows "t1 = t2 \<and> u1 = u2 \<and> extension m1 = extension m2"
proof -
  let ?r1 = "''veo_video_'' @ t1 @ ''_'' @ u1 @ ''.'' @ extension m1"
  let ?r2 = "''veo_video_'' @ t2 @ ''_'' @ u2 @ ''.'' @ extension m2"
  have n1: "CHR ''/'' \<notin> set u1" "CHR ''/'' \<notin> set u2"
    using assms(1,2) by (simp_all add: uuid_str_no_slash)
  have e: "t1 @ CHR ''/'' # ?r1 = t2 @ CHR ''/'' # ?r2"
    using eq by (simp add: gcs_blob_name_def video_filename_def video_filename_base_def)
  then have "count_list (t1 @ CHR ''/'' # ?r1) CHR ''/'' = count_list (t2 @ CHR ''/'' # ?r2) CHR ''/''"
    by simp
  then have "count_list t1 CHR ''/'' = count_list t2 CHR ''/''"
    using n1 extension_no_slash[of m1] extension_no_slash[of m2] by simp
  from same_prefix[OF e this] have t: "t1 = t2" and r: "?r1 = ?r2"
    by (rule conjunct1, rule conjunct2)
  from r have tail: "u1 @ (''.'' @ extension m1) = u2 @ (''.'' @ extension m2)"
    unfolding t by simp
  moreover have "length u1 = length u2" using assms(1,2) by (simp add: uuid_str_def)
  ultimately have u: "u1 = u2" by (metis append_eq_append_conv)
  with tail have "extension m1 = extension m2" by simp
  with t u show ?thesis by simp
qed

lemma extension_subtype:
  assumes "CHR ''/'' \<notin> set subtype"
  shows "extension (ty @ ''/'' @ subtype) = subtype"
proof -
  have "takeWhile (\<lambda>c. c \<noteq> CHR ''/'') (rev subtype @ CHR ''/'' # rev ty)
          = rev subtype @ takeWhile (\<lambda>c. c \<noteq> CHR ''/'') (CHR ''/'' # rev ty)"
    by (rule takeWhile_append2) (use assms in auto)
  then have "takeWhile (\<lambda>c. c \<noteq> CHR ''/'') (rev subtype @ CHR ''/'' # rev ty) = rev subtype"
    by simp
  then show ?thesis by (simp add: extension_def split_last_def)
qed

lemma stream_upload_name:
  assumes "stream A W prompt sid = Some (tr, fs)"
    and "UploadBytesToGcs vb b bl m \<in> set (calls tr)"
  shows "bl = gcs_blob_name sid (uuid4 W) m \<and> b = gcs_bucket_name A"
proof -
  from assms(2) have mem: "UploadBytesToGcs vb b bl m \<in> set (filter is_finalizer_call (calls tr))"
    by simp
  from stream_calls[OF assms(1)] consider
    (none) "filter is_finalizer_call (calls tr) = []"
  | (some) op where
      "filter is_finalizer_call (calls tr) = calls (fst (after_polling A W prompt sid op))"
    by blast
  then show ?thesis
  proof cases
    case none
    with mem show ?thesis by (simp only: list.set empty_iff)
  next
    case some
    with mem have "UploadBytesToGcs vb b bl m
                     \<in> set (calls (fst (after_polling A W prompt sid op)))"
      by (simp only:)
    with after_polling_calls[of A W prompt sid op] show ?thesis by auto
  qed
qed

text \<open>
  C6. In every run that ends, an upload goes to the blob
  \<^verbatim>\<open>{taskId}/veo_video_{taskId}_{uuid}.{extension}\<close>, built from the task id, the value
  \<^verbatim>\<open>uuid4\<close> returned in that run and the mime type the upload declares. The name begins
  with the task id and \<^verbatim>\<open>/\<close> and ends with \<^verbatim>\<open>.\<close> and the extension. The extension is
  taken from the mime type: for \<^verbatim>\<open>type/subtype\<close> it is the subtype (\<^verbatim>\<open>mp4\<close> for
  \<^verbatim>\<open>video/mp4\<close>); only a string without \<^verbatim>\<open>/\<close> falls back to \<^verbatim>\<open>mp4\<close>. The name holds the
  random part so that it can be read back: two names built from UUID-shaped random parts
  are equal exactly when the task ids, the random parts and the extensions are all equal.
  So distinct task ids never give the same path, and one task id gives the same path twice
  only if \<^verbatim>\<open>uuid4\<close> returns the same value twice.
\<close>

theorem blob_path_form_and_uniqueness:
  "(stream A W prompt taskId = Some (tr, fs) \<and> UploadBytesToGcs vb b bl m \<in> set (calls tr)
      \<longrightarrow> bl = taskId @ ''/'' @ (''veo_video_'' @ taskId @ ''_'' @ uuid4 W) @ ''.'' @ extension m
        \<and> bl = gcs_blob_name taskId (uuid4 W) m)
   \<and> gcs_blob_name taskId u mime
       = taskId @ ''/'' @ (''veo_video_'' @ taskId @ ''_'' @ u) @ ''.'' @ extension mime
   \<and> take (length taskId + 1) (gcs_blob_name taskId u mime) = taskId @ ''/''
   \<and> drop (length (gcs_blob_name taskId u mime) - length (''.'' @ extension mime))
        (gcs_blob_name taskId u mime) = ''.'' @ extension mime
   \<and> (CHR ''/'' \<notin> set subtype \<longrightarrow> extension (ty @ ''/'' @ subtype) = subtype)
   \<and> (CHR ''/'' \<notin> set mime \<longrightarrow> extension mime = ''mp4'')
   \<and> extension ''video/mp4'' = ''mp4''
   \<and> (uuid_str u1 \<and> uuid_str u2
        \<longrightarrow> (gcs_blob_name t1 u1 m1 = gcs_blob_name t2 u2 m2)
              = (t1 = t2 \<and> u1 = u2 \<and> extension m1 = extension m2))"
proof -
  have form: "gcs_blob_name t x y
     = t @ ''/'' @ (''veo_video_'' @ t @ ''_'' @ x) @ ''.'' @ extension y" for t x y
    by (simp add: gcs_blob_name_def video_filename_def video_filename_base_def)
  have run: "stream A W prompt taskId = Some (tr, fs)
               \<and> UploadBytesToGcs vb b bl m \<in> set (calls tr)
      \<longrightarrow> bl = taskId @ ''/'' @ (''veo_video_'' @ taskId @ ''_'' @ uuid4 W) @ ''.'' @ extension m
        \<and> bl = gcs_blob_name taskId (uuid4 W) m"
    using stream_upload_name[of A W prompt taskId tr fs vb b bl m] form[of taskId "uuid4 W" m]
    by (simp only: simp_thms) blast
  have pre: "take (length taskId + 1) (gcs_blob_name taskId u mime) = taskId @ ''/''"
    by (simp add: form)
  have split: "gcs_blob_name taskId u mime
     = (taskId @ ''/'' @ ''veo_video_'' @ taskId @ ''_'' @ u) @ (''.'' @ extension mime)"
    by (simp add: form)
  have suf: "drop (length (gcs_blob_name taskId u mime) - length (''.'' @ extension mime))
        (gcs_blob_name taskId u mime) = ''.'' @ extension mime"
    by (simp only: split drop_suffix)
  have sub: "CHR ''/'' \<notin> set subtype \<longrightarrow> extension (ty @ ''/'' @ subtype) = subtype"
    using extension_subtype[of subtype ty] by blast
  have fallback: "CHR ''/'' \<notin> set mime \<longrightarrow> extension mime = ''mp4''"
    by (simp add: extension_def)
  have mp4: "extension ''video/mp4'' = ''mp4''"
    by (simp add: extension_def split_last_def)
  have inj: "uuid_str u1 \<and> uuid_str u2
        \<longrightarrow> (gcs_blob_name t1 u1 m1 = gcs_blob_name t2 u2 m2)
              = (t1 = t2 \<and> u1 = u2 \<and> extension m1 = extension m2)"
  proof (intro impI iffI, elim conjE)
    assume "uuid_str u1" "uuid_str u2" "gcs_blob_name t1 u1 m1 = gcs_blob_name t2 u2 m2"
    then show "t1 = t2 \<and> u1 = u2 \<and> extension m1 = extension m2"
      by (rule blob_name_injective)
  next
    assume "t1 = t2 \<and> u1 = u2 \<and> extension m1 = extension m2"
    then show "gcs_blob_name t1 u1 m1 = gcs_blob_name t2 u2 m2"
      by (simp add: form)
  qed
  from run form[of taskId u mime] pre suf sub fallback mp4 inj show ?thesis
    by (simp only: simp_thms)
qed

theorem blob_path_witness:
  "\<exists>tr fs. stream example_agent (example_world (Inr (finished None (Some one_video))))
               ''a cat'' ''t1'' = Some (tr, fs)
     \<and> UploadBytesToGcs ''fake-mp4'' ''bucket''
          ''t1/veo_video_t1_123e4567-e89b-42d3-a456-426614174000.mp4'' ''video/mp4''
         \<in> set (calls tr)
     \<and> ''t1/veo_video_t1_123e4567-e89b-42d3-a456-426614174000.mp4''
         = gcs_blob_name ''t1''
             (uuid4 (example_world (Inr (finished None (Some one_video))))) ''video/mp4''
     \<and> CHR ''/'' \<notin> set ''webm'' \<and> extension (''video'' @ ''/'' @ ''webm'') = ''webm''
     \<and> extension ''webm'' = ''mp4''
     \<and> uuid_str ''123e4567-e89b-42d3-a456-426614174000''
     \<and> uuid_str ''9b2e4567-e89b-42d3-a456-426614174fff''
     \<and> gcs_blob_name ''t1'' ''123e4567-e89b-42d3-a456-426614174000'' ''video/mp4''
         \<noteq> gcs_blob_name ''t1'' ''9b2e4567-e89b-42d3-a456-426614174fff'' ''video/mp4''
     \<and> gcs_blob_name ''t1'' ''123e4567-e89b-42d3-a456-426614174000'' ''video/mp4''
         \<noteq> gcs_blob_name ''t2'' ''123e4567-e89b-42d3-a456-426614174000'' ''video/mp4''"
proof -
  let ?W = "example_world (Inr (finished None (Some one_video)))"
  let ?u = "''123e4567-e89b-42d3-a456-426614174000''"
  let ?u' = "''9b2e4567-e89b-42d3-a456-426614174fff''"
  let ?bl = "''t1/veo_video_t1_123e4567-e89b-42d3-a456-426614174000.mp4''"
  have "map_option (\<lambda>r. filter is_finalizer_call (calls (fst r)))
          (stream example_agent ?W ''a cat'' ''t1'')
        = Some [UploadBytesToGcs ''fake-mp4'' ''bucket'' ?bl ''video/mp4'',
                GenerateSignedUrl ?bl ''bucket'' 172800]"
    by code_simp
  then obtain tr fs where
    run: "stream example_agent ?W ''a cat'' ''t1'' = Some (tr, fs)" and
    fc: "filter is_finalizer_call (calls tr)
           = [UploadBytesToGcs ''fake-mp4'' ''bucket'' ?bl ''video/mp4'',
              GenerateSignedUrl ?bl ''bucket'' 172800]"
    by auto
  have "UploadBytesToGcs ''fake-mp4'' ''bucket'' ?bl ''video/mp4''
          \<in> set (filter is_finalizer_call (calls tr))"
    unfolding fc by simp
  then have up: "UploadBytesToGcs ''fake-mp4'' ''bucket'' ?bl ''video/mp4'' \<in> set (calls tr)"
    by simp
  have u: "uuid_str ?u" "uuid_str ?u'" by (simp_all add: uuid_str_def)
  have w: "CHR ''/'' \<notin> set ''webm''" by simp
  note thm1 = blob_path_form_and_uniqueness
    [where A = example_agent and W = ?W and prompt = "''a cat''" and taskId = "''t1''"
       and tr = tr and fs = fs and vb = "''fake-mp4''" and b = "''bucket''" and bl = ?bl
       and m = "''video/mp4''" and subtype = "''webm''" and ty = "''video''"
       and mime = "''webm''" and ?u1.0 = ?u and ?u2.0 = ?u' and ?t1.0 = "''t1''"
       and ?t2.0 = "''t1''" and ?m1.0 = "''video/mp4''" and ?m2.0 = "''video/mp4''"]
  note thm2 = blob_path_form_and_uniqueness
    [where ?u1.0 = ?u and ?u2.0 = ?u and ?t1.0 = "''t1''"
       and ?t2.0 = "''t2''" and ?m1.0 = "''video/mp4''" and ?m2.0 = "''video/mp4''"]
  from thm1 run up have name: "?bl = gcs_blob_name ''t1'' (uuid4 ?W) ''video/mp4''" by blast
  from thm1 w have ext: "extension (''video'' @ ''/'' @ ''webm'') = ''webm''"
    "extension ''webm'' = ''mp4''" by blast+
  from thm1 u have d1: "gcs_blob_name ''t1'' ?u ''video/mp4''
                          \<noteq> gcs_blob_name ''t1'' ?u' ''video/mp4''" by simp
  from thm2 u have d2: "gcs_blob_name ''t1'' ?u ''video/mp4''
                          \<noteq> gcs_blob_name ''t2'' ?u ''video/mp4''" by simp
  from run up name w ext u d1 d2 show ?thesis
    by (intro exI[of _ tr] exI[of _ fs]) (simp only: simp_thms)
qed

subsection \<open>Polling stops when the operation is done\<close>

text \<open>
  The loop is left by \<^verbatim>\<open>break\<close> as soon as a poll answers an operation that is done: after
  \<open>k\<close> polls that find it running, poll \<open>k\<close> is the last. An operation that is done when it
  starts is never polled. In both cases the run ends.
\<close>

lemma loop_completes:
  assumes "pending W n k"
    and "VEO_SIMULATED_TOTAL_GENERATION_TIME_SECONDS A \<noteq> 0"
    and "op_done op = Has False"
    and "operations_get W (n + k) = Inr fin"
    and "op_done fin = Has True" and "op_name fin \<noteq> Missing"
  shows "\<exists>ltr nm. polling_loop A W sid n op rep = Some (ltr, Break fin nm)
           \<and> polls ltr = [n..<Suc (n + k)]"
  using assms(1,3,4)
proof (induction k arbitrary: n op rep)
  case 0
  from current_progress_total[OF assms(2)] obtain p where
    p: "current_progress A (monotonic W (Suc n) - monotonic W 0) = Inr p" by blast
  have fin: "polling_loop A W sid (Suc n) fin (polled_name fin rep)
               = Some ([], Break fin (polled_name fin rep))"
    using assms(5) by (subst polling_loop.simps) simp
  have "polling_loop A W sid n op rep
      = Some ([Call (Sleep (VEO_POLLING_INTERVAL_SECONDS A)), Call (OperationsGet n),
               Yield (progress_update (in_progress_msg (polled_name fin rep) p) p)],
              Break fin (polled_name fin rep))"
    using "0.prems" assms(5,6) p fin by (subst polling_loop.simps) simp
  then show ?case by simp
next
  case (Suc k)
  from Suc.prems(1) obtain pd0 where
    pd0: "operations_get W n = Inr pd0" "op_done pd0 = Has False" "op_name pd0 \<noteq> Missing"
         "pending W (Suc n) k"
    by (auto split: sum.splits)
  from current_progress_total[OF assms(2)] obtain p where
    p: "current_progress A (monotonic W (Suc n) - monotonic W 0) = Inr p" by blast
  from Suc.prems(3) have "operations_get W (Suc n + k) = Inr fin" by simp
  from Suc.IH[OF pd0(4) pd0(2) this, of "polled_name pd0 rep"] obtain ltr nm where
    ih: "polling_loop A W sid (Suc n) pd0 (polled_name pd0 rep) = Some (ltr, Break fin nm)"
        "polls ltr = [Suc n..<Suc (Suc n + k)]"
    by blast
  let ?it = "[Call (Sleep (VEO_POLLING_INTERVAL_SECONDS A)), Call (OperationsGet n),
              Yield (progress_update (in_progress_msg (polled_name pd0 rep) p) p)]"
  have "polling_loop A W sid n op rep = Some (?it @ ltr, Break fin nm)"
    using Suc.prems(2) pd0 p ih(1) by (subst polling_loop.simps) simp
  moreover have "polls (?it @ ltr) = [n..<Suc (n + Suc k)]"
    using ih(2) by (simp add: upt_conv_Cons del: upt_Suc)
  ultimately show ?case by blast
qed

lemma stream_completes:
  assumes "generate_videos W = Inr op0" and "op_done op0 = Has False"
    and "VEO_SIMULATED_TOTAL_GENERATION_TIME_SECONDS A \<noteq> 0"
    and "pending W 0 k"
    and "operations_get W k = Inr fin" and "op_done fin = Has True" and "op_name fin \<noteq> Missing"
  shows "\<exists>tr fs ltr nm. stream A W prompt sid = Some (tr, fs)
           \<and> polling_loop A W sid 0 op0 (initial_name op0) = Some (ltr, Break fin nm)
           \<and> polls ltr = [0..<Suc k]"
proof -
  from assms(5) have "operations_get W (0 + k) = Inr fin" by simp
  from loop_completes[OF assms(4,3,2) this assms(6,7), of sid "initial_name op0"]
  obtain ltr nm where
    loop: "polling_loop A W sid 0 op0 (initial_name op0) = Some (ltr, Break fin nm)"
          "polls ltr = [0..<Suc (0 + k)]"
    by blast
  with stream_finished[OF assms(1) loop(1), of prompt] show ?thesis by auto
qed

lemma stream_done_at_once:
  assumes "generate_videos W = Inr op0" and "op_done op0 = Has True"
  shows "\<exists>tr fs. stream A W prompt sid = Some (tr, fs) \<and> polls tr = []
           \<and> polling_loop A W sid 0 op0 (initial_name op0)
               = Some ([], Break op0 (initial_name op0))"
proof -
  have loop: "polling_loop A W sid 0 op0 (initial_name op0)
                = Some ([], Break op0 (initial_name op0))"
    using assms(2) by (subst polling_loop.simps) simp
  have "polls (fst (handled sid ctx out)) = polls (fst out)" for ctx out
    by (simp add: handled_def split: option.splits)
  moreover have "polls (fst (after_polling A W prompt sid op0)) = []"
    by (simp add: after_polling_def finalize_video_def sign_and_report_def no_video_def Let_def
          split: attr.splits option.splits sum.splits)
  ultimately have "polls (fst (after_loop A W prompt sid (Break op0 (initial_name op0)))) = []"
    by (simp add: after_loop_def)
  with stream_finished[OF assms(1) loop, of prompt] loop show ?thesis by simp
qed

text \<open>
  The log line 242 reads \<^verbatim>\<open>veo_operation.name\<close> before the error and the response are
  looked at. An operation that is done when it starts and has no name attribute at all
  therefore ends in the handler, whatever else it holds; an operation that came from a poll
  always has the attribute. This is why the properties of the code after the loop are
  stated for an operation with a name attribute.
\<close>

lemma done_without_name_attribute:
  assumes "generate_videos W = Inr op0" and "op_done op0 = Has True"
    and "op_name op0 = Missing"
  shows "stream A W prompt sid
           = Some ([Yield (progress_update (received_msg prompt) 0),
                    Call (GenerateVideos prompt),
                    Yield (progress_update (started_msg ''N/A'') 5),
                    Yield (exception_result sid (attribute_error (obj_type op0) ''name'')
                             ''VEO operation name: N/A'')],
                   files W)"
proof -
  have n: "initial_name op0 = ''N/A''" using assms(3) by (simp add: initial_name_def)
  have loop: "polling_loop A W sid 0 op0 (initial_name op0)
                = Some ([], Break op0 (initial_name op0))"
    using assms(2) by (subst polling_loop.simps) simp
  have "after_polling A W prompt sid op0
          = ([], files W, Some (attribute_error (obj_type op0) ''name''))"
    using assms(3) by (simp add: after_polling_def)
  with stream_finished[OF assms(1) loop, of prompt] n show ?thesis
    by (simp add: after_loop_def handled_def)
qed

end
